theory Spec2Isabelle
  imports Complex_Main "HOL-Library.Sublist"
begin

section \<open>JavaScript values\<close>

text \<open>
  A JavaScript number is an IEEE double. A finite double is kept as its exact value, a
  rational (\<open>+0\<close> and \<open>-0\<close> are both \<open>Fin 0\<close>: the code never tells them apart);
  comparisons and truthiness of doubles are those of their exact values. The built-in
  operations that round or produce text are not defined here: they are fields of the
  record \<open>builtins\<close> that every function using them takes as its first argument, so each
  theorem holds for whatever the engine computes.
\<close>

datatype jsnum = NaN | NegInf | Fin rat | PosInf

text \<open>
  The values a parsed JSON body or a property read can give. \<open>JObj s\<close> is an object or
  an array, kept with \<open>s\<close>, its conversion to a string: the code reads nothing else of
  one.
\<close>

datatype jsval = JUndefined | JNull | JBool bool | JNum jsnum | JStr string | JObj string

section \<open>The document\<close>

text \<open>
  The dashboard's elements are reached by their id (\<open>document.getElementById\<close>), and
  the rows of the price table by their \<open>data-symbol\<close> attribute. An element is its text
  and its class list; an id names one element. Of a row the code reads the \<open>data-id\<close>
  attribute.
\<close>

record element =
  innerText :: string
  classList :: "string set"

record table_row =
  data_symbol :: string
  data_id :: "string option"

record page =
  elems :: "string \<rightharpoonup> element"
  table_rows :: "table_row list"

definition getElementById :: "page \<Rightarrow> string \<Rightarrow> element option" where
  "getElementById pg i = elems pg i"

definition put_element :: "page \<Rightarrow> string \<Rightarrow> element \<Rightarrow> page" where
  "put_element pg i e = pg\<lparr>elems := (elems pg)(i \<mapsto> e)\<rparr>"

subsection \<open>The account panel\<close>

text \<open>
  The account accordion as \<open>renderAccountInfo\<close> and \<open>renderPairProfits\<close> build it. A row of
  a profit table has its pair id in \<open>data-pair-id\<close> and the cells
  \<open>profit-usdc-info-<pair id>\<close> and \<open>profit-crypto-info-<pair id>\<close>, kept as their text
  (\<open>None\<close>: the row has no such cell). A table body has its element id and its rows. A
  heading is reached by its id and has the spans \<open>account-pnl-usdc\<close> and
  \<open>account-pnl-crypto\<close>, kept as their text (\<open>None\<close>: no such span). Pair ids are the
  strings the template literals make of them. The rows with \<open>data-pair-id\<close> and the cells
  with these ids are those of the profit tables; two rows may still carry the same pair
  id, and then the first in document order is the one a lookup finds.
\<close>

record profit_row =
  row_pair :: string
  usdc_cell :: "string option"
  crypto_cell :: "string option"

record profit_body =
  tbody_id :: string
  tbody_rows :: "profit_row list"

record heading =
  pnl_usdc :: "string option"
  pnl_crypto :: "string option"

record account_panel =
  bodies :: "profit_body list"
  headings :: "string \<rightharpoonup> heading"

section \<open>What the engine computes\<close>

text \<open>
  The operations of the JavaScript engine and of the browser that the model does not
  define. The first five are the number operations that round or produce text. The next
  three are the selector engine on a selector that is not of the plain form this theory
  gives a meaning to (see \<open>plain_in\<close> and \<open>plain_name\<close> below): the element found, if any,
  or the SyntaxError of a selector that does not parse. A row found is given by its
  attributes, a profit row by the position of its table body and its own position in it,
  a heading by its id. \<open>inherited k\<close> is the value of the property \<open>k\<close> that every plain
  object inherits (\<open>toString\<close>, \<open>constructor\<close>, ...), and \<open>undefined\<close> for the other names.
\<close>

datatype js_error =
    FetchFailed string
  | ControlApiError string
  | BodyNotJson
  | InvalidStatus string
  | TypeError
  | SyntaxError

record builtins =
  toFixed :: "jsnum \<Rightarrow> nat \<Rightarrow> string"
  numToString :: "jsnum \<Rightarrow> string"
  parseFloat :: "string \<Rightarrow> jsnum"
  strToNumber :: "string \<Rightarrow> jsnum"
  fadd :: "jsnum \<Rightarrow> jsnum \<Rightarrow> jsnum"
  selectSymbolRow :: "string \<Rightarrow> page \<Rightarrow> js_error + table_row option"
  selectPairRow :: "string \<Rightarrow> profit_body list \<Rightarrow> js_error + (nat \<times> nat) option"
  selectHeading :: "string \<Rightarrow> account_panel \<Rightarrow> js_error + string option"
  inherited :: "string \<Rightarrow> jsval"

fun num_truthy :: "jsnum \<Rightarrow> bool" where
  "num_truthy NaN = False"
| "num_truthy (Fin q) = (q \<noteq> 0)"
| "num_truthy NegInf = True"
| "num_truthy PosInf = True"

fun truthy :: "jsval \<Rightarrow> bool" where
  "truthy JUndefined = False"
| "truthy JNull = False"
| "truthy (JBool b) = b"
| "truthy (JNum n) = num_truthy n"
| "truthy (JStr s) = (s \<noteq> [])"
| "truthy (JObj s) = True"


fun to_string :: "builtins \<Rightarrow> jsval \<Rightarrow> string" where
  "to_string B JUndefined = ''undefined''"
| "to_string B JNull = ''null''"
| "to_string B (JBool b) = (if b then ''true'' else ''false'')"
| "to_string B (JNum n) = numToString B n"
| "to_string B (JStr s) = s"
| "to_string B (JObj s) = s"

text \<open>
  \<open>el.innerText = v\<close> shows \<open>v\<close> as a string, and null as the empty string.
\<close>

fun inner_text :: "builtins \<Rightarrow> jsval \<Rightarrow> string" where
  "inner_text B JNull = []"
| "inner_text B v = to_string B v"

text \<open>\<open>a || b\<close>\<close>

definition js_or :: "jsval \<Rightarrow> jsval \<Rightarrow> jsval" where
  "js_or a b = (if truthy a then a else b)"

subsection \<open>Strings\<close>

text \<open>
  \<open>String.prototype.trim\<close>, \<open>toLowerCase\<close> and \<open>includes\<close>. Strings are byte strings
  here, so only the ASCII white space and the ASCII letters are covered.
\<close>

definition is_space :: "char \<Rightarrow> bool" where
  "is_space c = (c \<in> {CHR 0x09, CHR 0x0A, CHR 0x0B, CHR 0x0C, CHR 0x0D, CHR '' ''})"

definition js_trim :: "string \<Rightarrow> string" where
  "js_trim s = rev (dropWhile is_space (rev (dropWhile is_space s)))"

definition lower_char :: "char \<Rightarrow> char" where
  "lower_char c =
     (let n = (of_char c :: nat) in if 65 \<le> n \<and> n \<le> 90 then char_of (n + 32) else c)"

definition toLowerCase :: "string \<Rightarrow> string" where
  "toLowerCase s = map lower_char s"

fun js_includes :: "string \<Rightarrow> string \<Rightarrow> bool" where
  "js_includes [] sub = (sub = [])"
| "js_includes (c # cs) sub = (prefix sub (c # cs) \<or> js_includes cs sub)"

subsection \<open>Selectors\<close>

text \<open>
  \<open>document.querySelector\<close> is called with selectors built from a string:
  \<open>tr[data-symbol='<s>']\<close>, \<open>tr[data-pair-id="<s>"]\<close> and \<open>#heading-<s>\<close>. Between quotes, a
  string that holds neither that quote, nor a backslash, nor a line break, nor the null
  character stands for itself: the selector matches the rows whose attribute is that
  string. After \<open>#\<close>, a string of ASCII letters, digits, hyphens and underscores stands
  for itself: the selector matches the element with that id (the document is taken to be
  in standards mode, where ids are compared exactly). For every other string the selector
  reads differently or does not parse, and the answer is the engine's.
\<close>

definition plain_in :: "char \<Rightarrow> string \<Rightarrow> bool" where
  "plain_in quote s =
     list_all (\<lambda>c. c \<notin> {quote, CHR 0x5C, CHR 0x0A, CHR 0x0C, CHR 0x0D, CHR 0x00}) s"



section \<open>Classes and run state\<close>

text \<open>
  \<open>classList.toggle(name, force)\<close>: with \<open>force\<close> a boolean the class is added or
  removed; with \<open>force\<close> undefined (an optional argument left out) the class is flipped.
\<close>

fun force_of :: "jsval \<Rightarrow> bool option" where
  "force_of JUndefined = None"
| "force_of v = Some (truthy v)"

definition class_add :: "string \<Rightarrow> element \<Rightarrow> element" where
  "class_add c e = e\<lparr>classList := insert c (classList e)\<rparr>"

definition class_remove :: "string \<Rightarrow> element \<Rightarrow> element" where
  "class_remove c e = e\<lparr>classList := classList e - {c}\<rparr>"

definition class_toggle :: "string \<Rightarrow> bool option \<Rightarrow> element \<Rightarrow> element" where
  "class_toggle c force e =
     (case force of
        Some True \<Rightarrow> class_add c e
      | Some False \<Rightarrow> class_remove c e
      | None \<Rightarrow> (if c \<in> classList e then class_remove c e else class_add c e))"

text \<open>
  The three lines every path uses to show a run state on a Start/Stop button:
  \<open>btn.innerText = r ? 'Stop' : 'Start'; btn.classList.toggle('btn-success', !r);
  btn.classList.toggle('btn-danger', r)\<close>.
\<close>

definition show_running :: "jsval \<Rightarrow> element \<Rightarrow> element" where
  "show_running r btn =
     class_toggle ''btn-danger'' (force_of r)
       (class_toggle ''btn-success'' (Some (\<not> truthy r))
          (btn\<lparr>innerText := (if truthy r then ''Stop'' else ''Start'')\<rparr>))"

text \<open>
  \<open>if (edit) { if (r) edit.classList.add("disabled"); else
  edit.classList.remove("disabled"); }\<close> on the element with id \<open>i\<close>.
\<close>

definition set_edit_disabled :: "page \<Rightarrow> string \<Rightarrow> bool \<Rightarrow> page" where
  "set_edit_disabled pg i r =
     (case getElementById pg i of
        None \<Rightarrow> pg
      | Some e \<Rightarrow>
          put_element pg i (if r then class_add ''disabled'' e else class_remove ''disabled'' e))"

section \<open>Requests and responses\<close>

text \<open>
  A \<open>fetch\<close> either rejects (a network failure, with the error's message) or resolves
  with a response. \<open>body\<close> is what \<open>response.json()\<close> resolves with, \<open>None\<close> when it
  rejects (the body is not JSON).
\<close>

record 'b response =
  ok :: bool
  statusText :: string
  body :: "'b option"

datatype 'b fetch_outcome = Rejected string | Resolved "'b response"

datatype request =
    ClearOpenPositions string string string
  | Control string jsval

datatype event =
    Issued request
  | Fulfilled request
  | Failed request
  | Alert string
  | AlertTradeError js_error

section \<open>bot\_control.js: toggleBot\<close>

text \<open>
  The body \<open>/api/control\<close> answers with. \<open>DataNull\<close> is the JSON value \<open>null\<close>, whose
  property reads throw; of any other body the code reads the two properties \<open>status\<close>
  and \<open>bot_is_running\<close>, \<open>JUndefined\<close> where the body has none.
\<close>

datatype control_data = DataNull | Data (status: jsval) (bot_is_running: jsval)

datatype stage = AwaitClear | AwaitControl

record toggle_task =
  task_stage :: stage
  task_action :: string
  task_pair :: jsval
  task_btn :: string
  task_edit :: "string option"

text \<open>\<open>btnId || `control-btn-${pairId}`\<close>: a missing or empty \<open>btnId\<close> is falsy.\<close>

definition given :: "string option \<Rightarrow> string option" where
  "given btnId = (case btnId of None \<Rightarrow> None | Some b \<Rightarrow> if b = [] then None else Some b)"

definition btn_key :: "builtins \<Rightarrow> jsval \<Rightarrow> string option \<Rightarrow> string" where
  "btn_key B pairId btnId =
     (case given btnId of Some b \<Rightarrow> b | None \<Rightarrow> ''control-btn-'' @ to_string B pairId)"

definition edit_key :: "string option \<Rightarrow> string option" where
  "edit_key btnId = map_option (\<lambda>b. ''edit-'' @ b) (given btnId)"

definition toggle_action :: "string \<Rightarrow> string" where
  "toggle_action label = (if js_trim label = ''Start'' then ''start'' else ''stop'')"

text \<open>
  The synchronous part of \<open>toggleBot\<close> (lines 2 to 18): the button is looked up (a
  missing one makes \<open>btn.innerText\<close> throw), the action is read off its label, and the
  first request is issued: the clear-open-positions request for a start, the control
  request otherwise (\<open>Promise.resolve().then\<close> runs before any response can arrive).
  The page is returned as it is shown when the function returns.
\<close>

definition toggleBot_start ::
  "builtins \<Rightarrow> page \<Rightarrow> jsval \<Rightarrow> string \<Rightarrow> string \<Rightarrow> string \<Rightarrow> string option
     \<Rightarrow> js_error + (page \<times> toggle_task \<times> event list)" where
  "toggleBot_start B pg pairId symbol exchange mode btnId =
     (case getElementById pg (btn_key B pairId btnId) of
        None \<Rightarrow> Inl TypeError
      | Some btn \<Rightarrow>
          (let action = toggle_action (innerText btn);
               t = \<lparr>task_stage = (if action = ''start'' then AwaitClear else AwaitControl),
                    task_action = action, task_pair = pairId,
                    task_btn = btn_key B pairId btnId, task_edit = edit_key btnId\<rparr>
           in Inr (pg, t,
                [Issued (if action = ''start'' then ClearOpenPositions symbol exchange mode
                         else Control action pairId)])))"

text \<open>
  The \<open>.catch\<close> handler (lines 46 to 54): the edit control, when there is one, is
  enabled, the error is alerted and thrown again. The button is not touched.
\<close>

definition toggleBot_catch ::
  "page \<Rightarrow> toggle_task \<Rightarrow> js_error \<Rightarrow> page \<times> event list \<times> (js_error + control_data)" where
  "toggleBot_catch pg t err =
     ((case task_edit t of None \<Rightarrow> pg | Some i \<Rightarrow> set_edit_disabled pg i False),
      [AlertTradeError err], Inl err)"

text \<open>
  The clear-open-positions request settles (line 14): when it resolves, whatever the
  response, the control request is issued; when it rejects, the chain falls through to
  the \<open>.catch\<close> handler.
\<close>

definition toggleBot_clear_settled ::
  "page \<Rightarrow> toggle_task \<Rightarrow> string \<Rightarrow> string \<Rightarrow> string \<Rightarrow> 'a fetch_outcome
     \<Rightarrow> page \<times> event list \<times> (toggle_task + (js_error + control_data))" where
  "toggleBot_clear_settled pg t symbol exchange mode out =
     (case out of
        Resolved r \<Rightarrow>
          (pg, [Fulfilled (ClearOpenPositions symbol exchange mode),
                Issued (Control (task_action t) (task_pair t))],
           Inl (t\<lparr>task_stage := AwaitControl\<rparr>))
      | Rejected m \<Rightarrow>
          (let (pg', evs, res) = toggleBot_catch pg t (FetchFailed m)
           in (pg', Failed (ClearOpenPositions symbol exchange mode) # evs, Inr res)))"

text \<open>
  \<open>data.status && data.status.toLowerCase().includes('invalid')\<close>: \<open>Inl TypeError\<close>
  when the status is truthy and not a string (it has no \<open>toLowerCase\<close>), \<open>Inr (Some s)\<close>
  when the status is the string \<open>s\<close> and holds "invalid" in any case.
\<close>

fun status_invalid :: "jsval \<Rightarrow> js_error + string option" where
  "status_invalid (JStr s) =
     Inr (if s \<noteq> [] \<and> js_includes (toLowerCase s) ''invalid'' then Some s else None)"
| "status_invalid v = (if truthy v then Inl TypeError else Inr None)"

text \<open>
  The last \<open>.then\<close> handler (lines 25 to 45), on the parsed body. \<open>btn\<close> is the element
  found when the function started.
\<close>

definition toggleBot_data ::
  "page \<Rightarrow> toggle_task \<Rightarrow> control_data \<Rightarrow> page \<times> event list \<times> (js_error + control_data)" where
  "toggleBot_data pg t d =
     (case d of
        DataNull \<Rightarrow> toggleBot_catch pg t TypeError
      | Data st run \<Rightarrow>
          (case status_invalid st of
             Inl e \<Rightarrow> toggleBot_catch pg t e
           | Inr (Some s) \<Rightarrow>
               (let (pg', evs, res) = toggleBot_catch pg t (InvalidStatus s)
                in (pg', Alert s # evs, res))
           | Inr None \<Rightarrow>
               (let pg1 = (case getElementById pg (task_btn t) of
                             None \<Rightarrow> pg
                           | Some btn \<Rightarrow> put_element pg (task_btn t) (show_running run btn));
                    pg2 = (case task_edit t of
                             None \<Rightarrow> pg1
                           | Some i \<Rightarrow> set_edit_disabled pg1 i (truthy run))
                in (pg2, [], Inr d))))"

text \<open>
  The control request settles (lines 19 to 24, then the handler above): a rejected
  fetch, a response that is not \<open>ok\<close> and a body that is not JSON each reach the
  \<open>.catch\<close> handler.
\<close>

definition toggleBot_control_settled ::
  "page \<Rightarrow> toggle_task \<Rightarrow> control_data fetch_outcome
     \<Rightarrow> page \<times> event list \<times> (js_error + control_data)" where
  "toggleBot_control_settled pg t out =
     (case out of
        Rejected m \<Rightarrow>
          (let (pg', evs, res) = toggleBot_catch pg t (FetchFailed m)
           in (pg', Failed (Control (task_action t) (task_pair t)) # evs, res))
      | Resolved r \<Rightarrow>
          (let (pg', evs, res) =
                 (if \<not> ok r then toggleBot_catch pg t (ControlApiError (statusText r))
                  else (case body r of
                          None \<Rightarrow> toggleBot_catch pg t BodyNotJson
                        | Some d \<Rightarrow> toggleBot_data pg t d))
           in (pg', Fulfilled (Control (task_action t) (task_pair t)) # evs, res)))"

text \<open>
  A whole call of \<open>toggleBot\<close>, given how the requests it issues settle: the page at the
  end, the events in their order, and what the returned promise settles with (\<open>Inl\<close>: it
  rejects). The outer \<open>Inl\<close> is the synchronous throw.
\<close>

definition toggleBot ::
  "builtins \<Rightarrow> page \<Rightarrow> jsval \<Rightarrow> string \<Rightarrow> string \<Rightarrow> string \<Rightarrow> string option
     \<Rightarrow> unit fetch_outcome \<Rightarrow> control_data fetch_outcome
     \<Rightarrow> js_error + (page \<times> event list \<times> (js_error + control_data))" where
  "toggleBot B pg pairId symbol exchange mode btnId clear_out control_out =
     (case toggleBot_start B pg pairId symbol exchange mode btnId of
        Inl e \<Rightarrow> Inl e
      | Inr (pg0, t, evs0) \<Rightarrow>
          (case task_stage t of
             AwaitControl \<Rightarrow>
               (let (pg2, evs2, res) = toggleBot_control_settled pg0 t control_out
                in Inr (pg2, evs0 @ evs2, res))
           | AwaitClear \<Rightarrow>
               (case toggleBot_clear_settled pg0 t symbol exchange mode clear_out of
                  (pg1, evs1, Inr res) \<Rightarrow> Inr (pg1, evs0 @ evs1, res)
                | (pg1, evs1, Inl t1) \<Rightarrow>
                    (let (pg2, evs2, res) = toggleBot_control_settled pg1 t1 control_out
                     in Inr (pg2, evs0 @ evs1 @ evs2, res)))))"

text \<open>The requests among the events, in the order they were issued.\<close>

fun issued :: "event list \<Rightarrow> request list" where
  "issued [] = []"
| "issued (Issued r # es) = r # issued es"
| "issued (e # es) = issued es"

subsection \<open>A price table with one pair\<close>

text \<open>
  Pair 7, BTCUSDC on binance/real: its Start/Stop button \<open>action-7\<close> and its edit control
  \<open>edit-action-7\<close>, once stopped and once running.
\<close>

definition stopped_page :: page where
  "stopped_page =
     \<lparr>elems = [''action-7'' \<mapsto> \<lparr>innerText = ''Start'', classList = {''btn'', ''btn-success''}\<rparr>,
               ''edit-action-7'' \<mapsto> \<lparr>innerText = ''Edit'', classList = {''btn''}\<rparr>,
               ''price-7'' \<mapsto> \<lparr>innerText = ''N/A'', classList = {}\<rparr>],
      table_rows = [\<lparr>data_symbol = ''BTCUSDC'', data_id = Some ''7''\<rparr>]\<rparr>"

definition running_page :: page where
  "running_page =
     \<lparr>elems = [''action-7'' \<mapsto> \<lparr>innerText = ''Stop'', classList = {''btn'', ''btn-danger''}\<rparr>,
               ''edit-action-7'' \<mapsto> \<lparr>innerText = ''Edit'', classList = {''btn'', ''disabled''}\<rparr>,
               ''price-7'' \<mapsto> \<lparr>innerText = ''N/A'', classList = {}\<rparr>],
      table_rows = [\<lparr>data_symbol = ''BTCUSDC'', data_id = Some ''7''\<rparr>]\<rparr>"

definition ok_response :: "'b \<Rightarrow> 'b response" where
  "ok_response b = \<lparr>ok = True, statusText = ''OK'', body = Some b\<rparr>"

section \<open>bot\_control.js: updateAllBotStatuses\<close>

text \<open>
  The body of the loop \<open>for (const pairId in statuses)\<close> (lines 66 to 84), for one key
  and its value.
\<close>

definition status_step :: "page \<Rightarrow> string \<times> jsval \<Rightarrow> page" where
  "status_step pg kv =
     (case getElementById pg (''action-'' @ fst kv) of
        None \<Rightarrow> pg
      | Some btn \<Rightarrow>
          set_edit_disabled (put_element pg (''action-'' @ fst kv) (show_running (snd kv) btn))
            (''edit-action-'' @ fst kv) (truthy (snd kv)))"

text \<open>
  The poll of \<open>/api/bot_statuses\<close>. The body is the object \<open>{pairId: running}\<close>, as the
  list of its keys and values in the order \<open>for ... in\<close> visits them. A rejected fetch, a
  response that is not \<open>ok\<close> and a body that is not JSON are logged and change nothing.
\<close>

definition updateAllBotStatuses :: "page \<Rightarrow> (string \<times> jsval) list fetch_outcome \<Rightarrow> page" where
  "updateAllBotStatuses pg out =
     (case out of
        Rejected m \<Rightarrow> pg
      | Resolved r \<Rightarrow>
          (if \<not> ok r then pg
           else (case body r of None \<Rightarrow> pg | Some statuses \<Rightarrow> foldl status_step pg statuses)))"

section \<open>What a pair shows\<close>

text \<open>
  The pair with id \<open>p\<close> has the Start/Stop button \<open>action-p\<close> and the edit control
  \<open>edit-action-p\<close>; the click handler of \<open>scripts.js\<close> calls
  \<open>toggleBot(p, symbol, exchange, mode, "action-p")\<close>. The pair is shown running when the
  button reads "Stop" and stopped when it reads "Start" (\<open>toggleBot\<close> reads the run state
  off the label in this way); its edit control is disabled when it has the class
  \<open>disabled\<close>.
\<close>

definition action_id :: "string \<Rightarrow> string" where
  "action_id p = ''action-'' @ p"

definition edit_action_id :: "string \<Rightarrow> string" where
  "edit_action_id p = ''edit-action-'' @ p"

definition label :: "page \<Rightarrow> string \<Rightarrow> string option" where
  "label pg i = map_option (\<lambda>e. js_trim (innerText e)) (getElementById pg i)"

definition disabled :: "page \<Rightarrow> string \<Rightarrow> bool option" where
  "disabled pg i = map_option (\<lambda>e. ''disabled'' \<in> classList e) (getElementById pg i)"

text \<open>
  The edit-while-running invariant for one pair: where the pair has both its button and
  its edit control, running means disabled and stopped means enabled.
\<close>

definition edit_consistent :: "page \<Rightarrow> string \<Rightarrow> bool" where
  "edit_consistent pg p =
     (case (label pg (action_id p), disabled pg (edit_action_id p)) of
        (Some l, Some d) \<Rightarrow> (l = ''Stop'' \<longrightarrow> d) \<and> (l = ''Start'' \<longrightarrow> \<not> d)
      | _ \<Rightarrow> True)"

section \<open>What toggleBot leaves on the page\<close>

text \<open>
  The page after the \<open>.catch\<close> handler of \<open>toggleBot\<close> ran on \<open>pg\<close>, and the page after its
  last \<open>.then\<close> handler ran with \<open>data.bot_is_running = run\<close>.
\<close>

definition failed_page :: "page \<Rightarrow> string option \<Rightarrow> page" where
  "failed_page pg btnId =
     (case edit_key btnId of None \<Rightarrow> pg | Some i \<Rightarrow> set_edit_disabled pg i False)"

definition confirmed_page :: "builtins \<Rightarrow> page \<Rightarrow> jsval \<Rightarrow> string option \<Rightarrow> jsval \<Rightarrow> page" where
  "confirmed_page B pg pairId btnId run =
     (let k = btn_key B pairId btnId;
          pg1 = (case getElementById pg k of
                   None \<Rightarrow> pg
                 | Some btn \<Rightarrow> put_element pg k (show_running run btn))
      in case edit_key btnId of
           None \<Rightarrow> pg1
         | Some i \<Rightarrow> set_edit_disabled pg1 i (truthy run))"

section \<open>scripts.js: the price\_update push handler\<close>

text \<open>
  A JSON object is the list of its keys, which are distinct, and their values, in the
  order \<open>for ... in\<close> and \<open>Object.entries\<close> visit them; \<open>obj[k]\<close> is the value of its own
  key \<open>k\<close> and, for a key it has not, what a plain object inherits under that name.
\<close>

definition get_prop :: "builtins \<Rightarrow> (string \<times> jsval) list \<Rightarrow> string \<Rightarrow> jsval" where
  "get_prop B obj k = (case map_of obj k of None \<Rightarrow> inherited B k | Some v \<Rightarrow> v)"

text \<open>
  The text written into a price cell (\<open>scripts.js\<close> lines 151 to 153, and the same
  expression in \<open>updateData\<close>): \<open>p !== 'N/A' && typeof p === 'number' ? p.toFixed(4) :
  (p || 'N/A')\<close>. The condition holds exactly for the numbers; the cell shows the other
  value as the string it converts to.
\<close>

fun price_cell_text :: "builtins \<Rightarrow> jsval \<Rightarrow> string" where
  "price_cell_text B (JNum x) = toFixed B x 4"
| "price_cell_text B v = to_string B (js_or v (JStr ''N/A''))"

text \<open>
  \<open>updateMarketTable\<close> (\<open>market_data.js\<close> lines 18 to 26), for one row: \<open>c && c !== 'N/A'
  ? `$${c.toFixed(4)}` : 'N/A'\<close>, where \<open>c.toFixed\<close> is a function only on a number.
\<close>

definition market_row_text :: "builtins \<Rightarrow> jsval \<Rightarrow> js_error + string" where
  "market_row_text B c =
     (if truthy c \<and> c \<noteq> JStr ''N/A''
      then (case c of JNum x \<Rightarrow> Inr (''$'' @ toFixed B x 4) | other \<Rightarrow> Inl TypeError)
      else Inr ''N/A'')"

text \<open>
  The rows of the market overview table are pairs of a symbol and a price text, and
  \<open>cached B cache symbol\<close> is \<open>priceCache[symbol]\<close>, the cache being a plain object with the
  own keys of \<open>cache\<close>. The loop over the rows stops at the first row that throws; the rows
  before it are redrawn.
\<close>

definition cached :: "builtins \<Rightarrow> (string \<rightharpoonup> jsval) \<Rightarrow> string \<Rightarrow> jsval" where
  "cached B cache symbol = (case cache symbol of None \<Rightarrow> inherited B symbol | Some v \<Rightarrow> v)"

fun updateMarketTable ::
  "builtins \<Rightarrow> (string \<rightharpoonup> jsval) \<Rightarrow> (string \<times> string) list
     \<Rightarrow> (string \<times> string) list \<times> js_error option" where
  "updateMarketTable B cache [] = ([], None)"
| "updateMarketTable B cache ((symbol, old) # rows) =
     (case market_row_text B (cached B cache symbol) of
        Inl e \<Rightarrow> ((symbol, old) # rows, Some e)
      | Inr t \<Rightarrow> (let (rows', err) = updateMarketTable B cache rows
                 in ((symbol, t) # rows', err)))"

text \<open>
  \<open>document.querySelector(`tr[data-symbol='${symbol}']`)\<close>: for a plain symbol, the first
  row of the price table with that \<open>data-symbol\<close>.
\<close>

definition query_symbol_row :: "builtins \<Rightarrow> page \<Rightarrow> string \<Rightarrow> js_error + table_row option" where
  "query_symbol_row B pg symbol =
     (if plain_in (CHR 0x27) symbol
      then Inr (find (\<lambda>r. data_symbol r = symbol) (table_rows pg))
      else selectSymbolRow B symbol pg)"

text \<open>
  The body of the loop \<open>for (const symbol in prices)\<close> (lines 129 to 175), for one symbol
  and its price: the row found gives the id, the price cell \<open>price-id\<close> gets the text, and
  the button \<open>action-id\<close> and the element \<open>edit-id\<close> are set from \<open>trade_status[symbol]\<close>.
  \<open>Inl\<close>: the selector did not parse and \<open>querySelector\<close> threw.
\<close>

definition push_step ::
  "builtins \<Rightarrow> (string \<times> jsval) list \<Rightarrow> page \<Rightarrow> string \<times> jsval \<Rightarrow> js_error + page" where
  "push_step B trade_status pg sv =
     (case query_symbol_row B pg (fst sv) of
        Inl e \<Rightarrow> Inl e
      | Inr None \<Rightarrow> Inr pg
      | Inr (Some row) \<Rightarrow>
          (case given (data_id row) of
             None \<Rightarrow> Inr pg
           | Some i \<Rightarrow>
               (let pg1 = (case getElementById pg (''price-'' @ i) of
                             None \<Rightarrow> pg
                           | Some cell \<Rightarrow>
                               put_element pg (''price-'' @ i)
                                 (cell\<lparr>innerText := price_cell_text B (snd sv)\<rparr>));
                    running = get_prop B trade_status (fst sv)
                in (case getElementById pg1 (''action-'' @ i) of
                      None \<Rightarrow> Inr pg1
                    | Some btn \<Rightarrow>
                        Inr (set_edit_disabled
                               (put_element pg1 (''action-'' @ i) (show_running running btn))
                               (''edit-'' @ i) (truthy running))))))"

text \<open>
  The loop: it ends at the first symbol whose step throws, and the page is then the one
  the steps before have left.
\<close>

fun push_loop ::
  "builtins \<Rightarrow> (string \<times> jsval) list \<Rightarrow> page \<Rightarrow> (string \<times> jsval) list
     \<Rightarrow> page \<times> js_error option" where
  "push_loop B trade_status pg [] = (pg, None)"
| "push_loop B trade_status pg (sv # rest) =
     (case push_step B trade_status pg sv of
        Inl e \<Rightarrow> (pg, Some e)
      | Inr pg' \<Rightarrow> push_loop B trade_status pg' rest)"

text \<open>
  The state the handler works on: the module's \<open>priceCache\<close>, the page, and the rows of
  the market overview table when the page has one. A message carries \<open>prices\<close> and
  \<open>trade_status\<close>, each possibly missing.
\<close>

record app_state =
  priceCache :: "string \<rightharpoonup> jsval"
  doc :: page
  market_table :: "(string \<times> string) list option"

record price_update =
  prices :: "(string \<times> jsval) list option"
  trade_status :: "(string \<times> jsval) list option"

definition entries :: "(string \<times> jsval) list option \<Rightarrow> (string \<times> jsval) list" where
  "entries obj = (case obj of None \<Rightarrow> [] | Some kvs \<Rightarrow> kvs)"

text \<open>
  \<open>socket.on('price_update', ...)\<close>: the cache is merged with the message's prices
  (\<open>priceCache = { ...priceCache, ...prices }\<close>), the redraw of the market overview table,
  when there is one, is started, and the price table is walked. The redraw runs from the
  merged cache once the module is loaded, whether the walk has thrown or not. The errors
  are what the walk threw and what \<open>updateMarketTable\<close> threw, if they did.
\<close>

definition on_price_update ::
  "builtins \<Rightarrow> app_state \<Rightarrow> price_update
     \<Rightarrow> app_state \<times> js_error option \<times> js_error option" where
  "on_price_update B st msg =
     (let cache = priceCache st ++ map_of (entries (prices msg));
          (pg, thrown) = push_loop B (entries (trade_status msg)) (doc st) (entries (prices msg));
          (table, err) = (case market_table st of
                            None \<Rightarrow> (None, None)
                          | Some rows \<Rightarrow>
                              (let (rows', e) = updateMarketTable B cache rows
                               in (Some rows', e)))
      in (\<lparr>priceCache = cache, doc = pg, market_table = table\<rparr>, thrown, err))"

subsection \<open>A cache with two symbols and a push for one of them\<close>

definition two_price_state :: app_state where
  "two_price_state =
     \<lparr>priceCache = [''BTCUSDC'' \<mapsto> JNum (Fin 49000), ''ETHUSDC'' \<mapsto> JNum (Fin 3000)],
      doc = stopped_page, market_table = None\<rparr>"

definition btc_delta :: price_update where
  "btc_delta = \<lparr>prices = Some [(''BTCUSDC'', JNum (Fin 50000))], trade_status = None\<rparr>"

section \<open>notifications.js\<close>

text \<open>
  A notification as the code reads it: \<open>timestamp\<close> and \<open>message\<close> are the strings the
  template literals make of \<open>msg.timestamp\<close> and \<open>msg.message\<close>, \<open>ntype\<close> is \<open>msg.type\<close>. The
  body of \<open>/api/notifications\<close> is an object from symbols to lists of notifications.
\<close>

record notification =
  timestamp :: string
  ntype :: string
  message :: string

type_synonym notifications = "(string \<times> notification list) list"

text \<open>
  The items of the dropdown list \<open>notification-list\<close>: a notification (shown as an error
  or not, with its text), the divider, and the "Clear All" item.
\<close>

datatype list_item = Entry bool string | Divider | ClearAll

text \<open>
  The module's \<open>seenNotifications\<close> set, the number shown in \<open>notification-count\<close> and the
  items of \<open>notification-list\<close> (\<open>None\<close>: the page has no such element).
\<close>

record notif_state =
  seenNotifications :: "string set"
  count_shown :: "nat option"
  list_items :: "list_item list option"

text \<open>
  What the module does that is seen from outside, in order. An alert is listed with the
  id of the notification that raised it and with its text.
\<close>

datatype note_event =
    Requested string
  | Responded string
  | RequestFailed string
  | SeenCleared
  | Alerted string string

definition note_id :: "string \<Rightarrow> notification \<Rightarrow> string" where
  "note_id symbol n = symbol @ ''-'' @ timestamp n"

definition note_text :: "string \<Rightarrow> notification \<Rightarrow> string" where
  "note_text symbol n = symbol @ '': '' @ message n"

text \<open>
  The messages in the order the two loops visit them (\<open>Object.entries(data)\<close>, then
  \<open>messages.forEach\<close>), each with its symbol.
\<close>

definition flat :: "notifications \<Rightarrow> (string \<times> notification) list" where
  "flat data = concat (map (\<lambda>(symbol, msgs). map (Pair symbol) msgs) data)"

text \<open>
  The body of the inner loop (lines 17 to 27), over the messages: the seen set, the list
  items appended and the alerts raised.
\<close>

fun render_notes ::
  "string set \<Rightarrow> (string \<times> notification) list
     \<Rightarrow> string set \<times> list_item list \<times> note_event list" where
  "render_notes seen [] = (seen, [], [])"
| "render_notes seen ((symbol, n) # rest) =
     (let i = note_id symbol n;
          alerts = (if i \<notin> seen \<and> ntype n = ''error''
                    then [Alerted i (note_text symbol n)] else []);
          (seen', items, alerts') = render_notes (insert i seen) rest
      in (seen', Entry (ntype n = ''error'') (note_text symbol n) # items, alerts @ alerts'))"

text \<open>The \<open>.then\<close> handler of \<open>updateNotifications\<close> (lines 6 to 38), on the parsed body.\<close>

definition show_notifications :: "notif_state \<Rightarrow> notifications \<Rightarrow> notif_state \<times> note_event list" where
  "show_notifications st data =
     (let st1 = (case count_shown st of
                   None \<Rightarrow> st
                 | Some c \<Rightarrow> st\<lparr>count_shown := Some (length (flat data))\<rparr>)
      in case list_items st1 of
           None \<Rightarrow> (st1, [])
         | Some old \<Rightarrow>
             (let (seen', items, alerts) = render_notes (seenNotifications st1) (flat data)
              in (st1\<lparr>seenNotifications := seen',
                       list_items := Some (items @ [Divider, ClearAll])\<rparr>, alerts)))"

text \<open>
  \<open>updateNotifications\<close>: one poll. A rejected fetch and a body that is not JSON are
  logged and change nothing; \<open>response.ok\<close> is not read.
\<close>

definition updateNotifications ::
  "notif_state \<Rightarrow> notifications fetch_outcome \<Rightarrow> notif_state \<times> note_event list" where
  "updateNotifications st out =
     (case out of
        Rejected m \<Rightarrow> (st, [Requested ''/api/notifications'', RequestFailed ''/api/notifications''])
      | Resolved r \<Rightarrow>
          (case body r of
             None \<Rightarrow> (st, [Requested ''/api/notifications'', Responded ''/api/notifications''])
           | Some data \<Rightarrow>
               (let (st', alerts) = show_notifications st data
                in (st', Requested ''/api/notifications'' # Responded ''/api/notifications'' #
                         alerts))))"

text \<open>Consecutive polls: the states after each of them, and all events.\<close>

fun polls ::
  "notif_state \<Rightarrow> notifications fetch_outcome list \<Rightarrow> notif_state list \<times> note_event list" where
  "polls st [] = ([], [])"
| "polls st (out # outs) =
     (let (st1, evs1) = updateNotifications st out;
          (sts, evs) = polls st1 outs
      in (st1 # sts, evs1 @ evs))"

text \<open>
  \<open>clearNotifications\<close> (lines 45 to 55), given how its request and the poll that follows
  settle: the seen set is cleared in the \<open>.then\<close> handler that runs once the response has
  arrived and its body has been parsed; a rejected fetch and a body that is not JSON are
  logged.
\<close>

definition clearNotifications ::
  "notif_state \<Rightarrow> 'a fetch_outcome \<Rightarrow> notifications fetch_outcome
     \<Rightarrow> notif_state \<times> note_event list" where
  "clearNotifications st clear_out poll_out =
     (case clear_out of
        Rejected m \<Rightarrow> (st, [Requested ''/clear_notifications'', RequestFailed ''/clear_notifications''])
      | Resolved r \<Rightarrow>
          (case body r of
             None \<Rightarrow> (st, [Requested ''/clear_notifications'', Responded ''/clear_notifications''])
           | Some ack \<Rightarrow>
               (let (st', evs) = updateNotifications (st\<lparr>seenNotifications := {}\<rparr>) poll_out
                in (st', Requested ''/clear_notifications'' # Responded ''/clear_notifications'' #
                         SeenCleared # evs))))"

text \<open>The alerts among the events that were raised by the notification with id \<open>i\<close>.\<close>

definition alerts_of :: "string \<Rightarrow> note_event list \<Rightarrow> note_event list" where
  "alerts_of i evs = filter (\<lambda>e. case e of Alerted j t \<Rightarrow> j = i | _ \<Rightarrow> False) evs"

subsection \<open>Notifications as the loop sees them\<close>

text \<open>The list item of a message and its id (\<open>`${symbol}-${msg.timestamp}`\<close>).\<close>

definition entry_of :: "string \<times> notification \<Rightarrow> list_item" where
  "entry_of x = Entry (ntype (snd x) = ''error'') (note_text (fst x) (snd x))"

definition id_of :: "string \<times> notification \<Rightarrow> string" where
  "id_of x = note_id (fst x) (snd x)"

text \<open>
  A poll includes the notification \<open>n\<close> of \<open>symbol\<close>: the request resolves with a JSON body
  that holds \<open>n\<close> under \<open>symbol\<close>.
\<close>

definition poll_includes :: "string \<Rightarrow> notification \<Rightarrow> notifications fetch_outcome \<Rightarrow> bool" where
  "poll_includes symbol n out =
     (case out of
        Rejected m \<Rightarrow> False
      | Resolved r \<Rightarrow>
          (case body r of
             None \<Rightarrow> False
           | Some data \<Rightarrow> (symbol, n) \<in> set (flat data)))"

subsection \<open>An error notification and two dropdowns\<close>

definition failed_order :: notification where
  "failed_order = \<lparr>timestamp = ''2024-05-01 10:00:00'', ntype = ''error'', message = ''Order failed''\<rparr>"

definition failed_order_poll :: "notifications fetch_outcome" where
  "failed_order_poll = Resolved (ok_response [(''BTCUSDC'', [failed_order])])"

text \<open>
  A second notification of BTCUSDC with the same timestamp, and a poll that returns it
  before the error.
\<close>

definition order_filled :: notification where
  "order_filled = \<lparr>timestamp = ''2024-05-01 10:00:00'', ntype = ''info'', message = ''Order filled''\<rparr>"

definition filled_and_failed_poll :: "notifications fetch_outcome" where
  "filled_and_failed_poll = Resolved (ok_response [(''BTCUSDC'', [order_filled, failed_order])])"

definition fresh_dropdown :: notif_state where
  "fresh_dropdown = \<lparr>seenNotifications = {}, count_shown = Some 0, list_items = Some []\<rparr>"

definition seen_dropdown :: notif_state where
  "seen_dropdown =
     \<lparr>seenNotifications = {''BTCUSDC-2024-05-01 10:00:00''}, count_shown = Some 1,
      list_items = Some [Entry True ''BTCUSDC: Order failed'', Divider, ClearAll]\<rparr>"

section \<open>trades.js: the profit ledger and its pagination controls\<close>

text \<open>
  \<open>ToNumber\<close>, \<open>v <= 1\<close> and \<open>a === b\<close>. Two objects of a parsed body are never the same
  object.
\<close>

fun to_number :: "builtins \<Rightarrow> jsval \<Rightarrow> jsnum" where
  "to_number B JUndefined = NaN"
| "to_number B JNull = Fin 0"
| "to_number B (JBool b) = Fin (if b then 1 else 0)"
| "to_number B (JNum n) = n"
| "to_number B (JStr s) = strToNumber B s"
| "to_number B (JObj s) = strToNumber B s"

fun num_le :: "jsnum \<Rightarrow> jsnum \<Rightarrow> bool" where
  "num_le NaN y = False"
| "num_le x NaN = False"
| "num_le NegInf y = True"
| "num_le x PosInf = True"
| "num_le (Fin a) (Fin b) = (a \<le> b)"
| "num_le PosInf y = False"
| "num_le x NegInf = False"

definition js_le_one :: "builtins \<Rightarrow> jsval \<Rightarrow> bool" where
  "js_le_one B v = num_le (to_number B v) (Fin 1)"

fun strict_eq :: "jsval \<Rightarrow> jsval \<Rightarrow> bool" where
  "strict_eq JUndefined JUndefined = True"
| "strict_eq JNull JNull = True"
| "strict_eq (JBool a) (JBool b) = (a = b)"
| "strict_eq (JNum a) (JNum b) = (a = b \<and> a \<noteq> NaN)"
| "strict_eq (JStr a) (JStr b) = (a = b)"
| "strict_eq a b = False"

text \<open>
  An item of the pagination list: the classes of the \<open>li\<close> and the text of its link.
\<close>

record page_item =
  item_classes :: "string set"
  item_text :: string

text \<open>
  \<open>updatePaginationControls(totalPages, currentPage)\<close> (lines 101 to 157) on the items of
  \<open>pagination-controls\<close> (\<open>None\<close>: the page has no such element).
\<close>

definition updatePaginationControls ::
  "builtins \<Rightarrow> page_item list option \<Rightarrow> jsval \<Rightarrow> jsval \<Rightarrow> page_item list option" where
  "updatePaginationControls B controls totalPages currentPage =
     (case controls of
        None \<Rightarrow> None
      | Some old \<Rightarrow>
          (if js_le_one B totalPages then Some []
           else Some
             [\<lparr>item_classes =
                  (if \<not> truthy currentPage \<or> strict_eq currentPage (JNum (Fin 1))
                   then {''page-item'', ''disabled''} else {''page-item''}),
                item_text = ''Previous''\<rparr>,
              \<lparr>item_classes = {''page-item'', ''active''},
                item_text = inner_text B currentPage\<rparr>,
              \<lparr>item_classes =
                  (if \<not> truthy currentPage \<or> strict_eq currentPage totalPages
                   then {''page-item'', ''disabled''} else {''page-item''}),
                item_text = ''Next''\<rparr>]))"

text \<open>
  \<open>data.entries\<close> as the handler reads it: a falsy value (missing, null, false, 0, the
  empty string), an array, or another truthy value, of which only \<open>length\<close> is read before
  \<open>forEach\<close> is called on it. An entry of the array is \<open>None\<close> when it is null, whose
  \<open>buy_price\<close> cannot be read; any other entry is rendered as a row.
\<close>

datatype 'e entries_value = Missing | Array "'e option list" | Other jsval

text \<open>
  The body of \<open>/api/profit_log_entries\<close>. A row of the ledger table is kept as the entry it
  shows; the markup of its cells is not modelled.
\<close>

record 'e ledger_page =
  ledger_error :: jsval
  ledger_entries :: "'e entries_value"
  total_pages :: jsval
  current_page :: jsval

datatype 'e ledger_row = ErrorRow string | ErrorSeeConsole | NoEntriesRow | EntryRow 'e

record 'e ledger_view =
  ledger_body :: "'e ledger_row list option"
  pagination :: "page_item list option"

text \<open>\<open>!data.entries || data.entries.length === 0\<close> (line 25).\<close>

definition no_entries :: "'e entries_value \<Rightarrow> bool" where
  "no_entries v =
     (case v of
        Missing \<Rightarrow> True
      | Array es \<Rightarrow> es = []
      | Other len \<Rightarrow> strict_eq len (JNum (Fin 0)))"

text \<open>
  \<open>data.entries.forEach(entry => ...)\<close> (lines 31 to 50): the rows appended, or the
  TypeError of the first null entry.
\<close>

fun render_entries :: "'e option list \<Rightarrow> js_error + 'e ledger_row list" where
  "render_entries [] = Inr []"
| "render_entries (None # es) = Inl TypeError"
| "render_entries (Some e # es) =
     (case render_entries es of
        Inl err \<Rightarrow> Inl err
      | Inr rows \<Rightarrow> Inr (EntryRow e # rows))"

text \<open>
  The \<open>.then\<close> handler of \<open>loadProfitLogData\<close> (lines 9 to 55), on the parsed body. \<open>Inl\<close>:
  the handler threw, which is for the \<open>.catch\<close> below; a truthy \<open>entries\<close> that is not an
  array has no \<open>forEach\<close>.
\<close>

definition show_ledger_page ::
  "builtins \<Rightarrow> 'e ledger_view \<Rightarrow> 'e ledger_page \<Rightarrow> js_error + 'e ledger_view" where
  "show_ledger_page B view data =
     (if truthy (ledger_error data)
      then (case ledger_body view of
              None \<Rightarrow> Inr view
            | Some rows \<Rightarrow>
                Inr (view\<lparr>ledger_body := Some [ErrorRow (to_string B (ledger_error data))]\<rparr>))
      else (case ledger_body view of
              None \<Rightarrow> Inr view
            | Some rows \<Rightarrow>
                (if no_entries (ledger_entries data)
                 then Inr (view\<lparr>ledger_body := Some [NoEntriesRow],
                               pagination := updatePaginationControls B (pagination view)
                                               (js_or (total_pages data) (JNum (Fin 0)))
                                               (js_or (current_page data) (JNum (Fin 1)))\<rparr>)
                 else (case ledger_entries data of
                         Array es \<Rightarrow>
                           (case render_entries es of
                              Inl err \<Rightarrow> Inl err
                            | Inr shown \<Rightarrow>
                                Inr (view\<lparr>ledger_body := Some shown,
                                          pagination := updatePaginationControls B (pagination view)
                                                          (total_pages data) (current_page data)\<rparr>))
                       | _ \<Rightarrow> Inl TypeError))))"

text \<open>
  \<open>loadProfitLogData\<close>, given how its request settles: a rejected fetch, a body that is
  not JSON (or is JSON null, of which \<open>error\<close> cannot be read) and a handler that threw
  show the "Error loading data. See console." row, and the pagination controls are not
  touched.
\<close>

definition loadProfitLogData ::
  "builtins \<Rightarrow> 'e ledger_view \<Rightarrow> 'e ledger_page fetch_outcome \<Rightarrow> 'e ledger_view" where
  "loadProfitLogData B view out =
     (let caught = (case ledger_body view of
                      None \<Rightarrow> view
                    | Some rows \<Rightarrow> view\<lparr>ledger_body := Some [ErrorSeeConsole]\<rparr>)
      in case (case out of Rejected m \<Rightarrow> None | Resolved r \<Rightarrow> body r) of
           None \<Rightarrow> caught
         | Some data \<Rightarrow>
             (case show_ledger_page B view data of
                Inl err \<Rightarrow> caught
              | Inr view' \<Rightarrow> view'))"

text \<open>
  Whether the Previous and the Next control of a pagination list are disabled: they are
  its first and its third item. \<open>None\<close>: there is no such control.
\<close>

definition previous_disabled :: "page_item list option \<Rightarrow> bool option" where
  "previous_disabled controls =
     (case controls of
        Some (p # c # n # others) \<Rightarrow> Some (''disabled'' \<in> item_classes p)
      | _ \<Rightarrow> None)"

definition next_disabled :: "page_item list option \<Rightarrow> bool option" where
  "next_disabled controls =
     (case controls of
        Some (p # c # n # others) \<Rightarrow> Some (''disabled'' \<in> item_classes n)
      | _ \<Rightarrow> None)"

subsection \<open>Ledger pages\<close>

definition empty_view :: "nat ledger_view" where
  "empty_view = \<lparr>ledger_body = Some [], pagination = Some []\<rparr>"

definition ledger_response :: "nat \<Rightarrow> jsval \<Rightarrow> jsval \<Rightarrow> nat ledger_page" where
  "ledger_response k tp cp =
     \<lparr>ledger_error = JUndefined, ledger_entries = Array (map Some [0..<k]),
      total_pages = tp, current_page = cp\<rparr>"

text \<open>A response without entries, and one whose second entry is null.\<close>

definition empty_response :: "jsval \<Rightarrow> jsval \<Rightarrow> nat ledger_page" where
  "empty_response tp cp =
     \<lparr>ledger_error = JUndefined, ledger_entries = Array [], total_pages = tp, current_page = cp\<rparr>"

definition null_entry_response :: "nat ledger_page" where
  "null_entry_response =
     \<lparr>ledger_error = JUndefined, ledger_entries = Array [Some 0, None],
      total_pages = JNum (Fin 3), current_page = JNum (Fin 1)\<rparr>"

section \<open>market\_data.js: the pair profits of the account panel\<close>

text \<open>The rows of the document, in document order.\<close>

definition all_rows :: "profit_body list \<Rightarrow> profit_row list" where
  "all_rows bs = concat (map tbody_rows bs)"












text \<open>\<open>s.replace(pattern, replacement)\<close> with a string pattern: the first occurrence.\<close>

fun replace_first :: "string \<Rightarrow> string \<Rightarrow> string \<Rightarrow> string" where
  "replace_first pat rep [] = (if pat = [] then rep else [])"
| "replace_first pat rep (c # cs) =
     (if prefix pat (c # cs) then rep @ drop (length pat) (c # cs)
      else c # replace_first pat rep cs)"




text \<open>
  \<open>el.innerText = '0.0'\<close> on the first cell of the document with the id
  \<open>profit-usdc-info-<i>\<close>, and the same for the crypto cell.
\<close>

fun zero_usdc :: "string \<Rightarrow> profit_row list \<Rightarrow> profit_row list" where
  "zero_usdc i [] = []"
| "zero_usdc i (r # rs) =
     (if row_pair r = i \<and> usdc_cell r \<noteq> None then r\<lparr>usdc_cell := Some ''0.0''\<rparr> # rs
      else r # zero_usdc i rs)"

fun zero_crypto :: "string \<Rightarrow> profit_row list \<Rightarrow> profit_row list" where
  "zero_crypto i [] = []"
| "zero_crypto i (r # rs) =
     (if row_pair r = i \<and> crypto_cell r \<noteq> None then r\<lparr>crypto_cell := Some ''0.0''\<rparr> # rs
      else r # zero_crypto i rs)"

text \<open>
  A change of the rows of the document, written on its bodies: \<open>f\<close> changes the first row
  it applies to, and \<open>hit\<close> tells whether a list of rows holds such a row.
\<close>

fun on_first_body ::
  "(profit_row list \<Rightarrow> bool) \<Rightarrow> (profit_row list \<Rightarrow> profit_row list) \<Rightarrow> profit_body list
     \<Rightarrow> profit_body list" where
  "on_first_body hit f [] = []"
| "on_first_body hit f (b # bs) =
     (if hit (tbody_rows b) then b\<lparr>tbody_rows := f (tbody_rows b)\<rparr> # bs
      else b # on_first_body hit f bs)"

text \<open>The success branch of \<open>resetProfit\<close> (lines 144 to 150).\<close>

definition zero_cells :: "account_panel \<Rightarrow> string \<Rightarrow> account_panel" where
  "zero_cells panel pairId =
     panel\<lparr>bodies :=
       on_first_body (list_ex (\<lambda>r. row_pair r = pairId \<and> crypto_cell r \<noteq> None))
         (zero_crypto pairId)
         (on_first_body (list_ex (\<lambda>r. row_pair r = pairId \<and> usdc_cell r \<noteq> None))
            (zero_usdc pairId) (bodies panel))\<rparr>"

text \<open>
  \<open>resetProfit\<close> (lines 135 to 156), given the user's answer to \<open>confirm\<close> and how the
  request settles; the body is kept as its \<open>status\<close>. The result is the panel and the
  alerts.
\<close>

definition resetProfit ::
  "account_panel \<Rightarrow> string \<Rightarrow> bool \<Rightarrow> jsval fetch_outcome \<Rightarrow> account_panel \<times> string list" where
  "resetProfit panel pairId confirmed out =
     (if \<not> confirmed then (panel, [])
      else (case out of
              Rejected m \<Rightarrow> (panel, [])
            | Resolved r \<Rightarrow>
                (case body r of
                   None \<Rightarrow> (panel, [])
                 | Some st \<Rightarrow>
                     (if strict_eq st (JStr ''success'')
                      then (zero_cells panel pairId, [])
                      else (panel, [''Failed to reset profit''])))))"

subsection \<open>The rows' own values\<close>



text \<open>A row after a reset of pair \<open>i\<close>: the cells of that pair's row read "0.0".\<close>

definition zeroed_usdc :: "string \<Rightarrow> profit_row \<Rightarrow> profit_row" where
  "zeroed_usdc i r =
     (if row_pair r = i then r\<lparr>usdc_cell := map_option (\<lambda>old. ''0.0'') (usdc_cell r)\<rparr> else r)"

definition zeroed_crypto :: "string \<Rightarrow> profit_row \<Rightarrow> profit_row" where
  "zeroed_crypto i r =
     (if row_pair r = i then r\<lparr>crypto_cell := map_option (\<lambda>old. ''0.0'') (crypto_cell r)\<rparr> else r)"

definition zeroed :: "string \<Rightarrow> profit_row \<Rightarrow> profit_row" where
  "zeroed i r =
     (if row_pair r = i
      then r\<lparr>usdc_cell := map_option (\<lambda>old. ''0.0'') (usdc_cell r),
             crypto_cell := map_option (\<lambda>old. ''0.0'') (crypto_cell r)\<rparr>
      else r)"

subsection \<open>An account with two pairs\<close>

definition two_pair_panel :: account_panel where
  "two_pair_panel =
     \<lparr>bodies =
        [\<lparr>tbody_id = ''profit-body-binance_real'',
          tbody_rows =
            [\<lparr>row_pair = ''3'', usdc_cell = Some ''1.5000'', crypto_cell = Some ''0.000100''\<rparr>,
             \<lparr>row_pair = ''5'', usdc_cell = Some ''2.2500'', crypto_cell = Some ''0.000200''\<rparr>]\<rparr>],
      headings =
        [''heading-binance_real'' \<mapsto> \<lparr>pnl_usdc = Some ''3.7500'', pnl_crypto = Some ''0.000300''\<rparr>]\<rparr>"


section \<open>Properties\<close>

subsection \<open>toggleBot: the order of the requests\<close>

lemma toggleBot_data_issued: "toggleBot_data pg t d = (pg', evs, res) \<Longrightarrow> issued evs = []"
  by (auto simp: toggleBot_data_def toggleBot_catch_def Let_def
      split: control_data.splits sum.splits option.splits)

lemma toggleBot_control_settled_issued:
  assumes "toggleBot_control_settled pg t out = (pg', evs, res)"
  shows "\<exists>e rest. evs = e # rest \<and> issued rest = [] \<and>
           (e = Fulfilled (Control (task_action t) (task_pair t)) \<or>
            e = Failed (Control (task_action t) (task_pair t)))"
  using assms
  by (auto simp: toggleBot_control_settled_def toggleBot_catch_def Let_def
      split: fetch_outcome.splits prod.splits if_splits option.splits
      dest: toggleBot_data_issued)

text \<open>
  C4. When the button's label is "Start", the first event of a toggle is the
  clear-open-positions request with the call's symbol, exchange and mode; the control
  request \<open>{action: "start", pair_id}\<close> is issued right after that request's fetch has
  resolved, and it is the only other request; when the clear request rejects, no control
  request is issued. When the label is "Stop", the first event is the control request
  \<open>{action: "stop", pair_id}\<close> and no other request is issued.
\<close>

theorem toggleBot_request_order:
  assumes "getElementById pg (btn_key B pairId btnId) = Some btn"
  shows "(js_trim (innerText btn) = ''Start'' \<longrightarrow>
           (\<exists>pg' rest res.
              toggleBot B pg pairId symbol exchange mode btnId clear_out control_out =
                Inr (pg', Issued (ClearOpenPositions symbol exchange mode) # rest, res) \<and>
              (case clear_out of
                 Resolved r \<Rightarrow>
                   (\<exists>rest'. rest = Fulfilled (ClearOpenPositions symbol exchange mode) #
                               Issued (Control ''start'' pairId) # rest' \<and> issued rest' = [])
               | Rejected m \<Rightarrow> issued rest = []))) \<and>
         (js_trim (innerText btn) = ''Stop'' \<longrightarrow>
           (\<exists>pg' rest res.
              toggleBot B pg pairId symbol exchange mode btnId clear_out control_out =
                Inr (pg', Issued (Control ''stop'' pairId) # rest, res) \<and> issued rest = []))"
proof (intro conjI impI)
  let ?t = "\<lambda>a. \<lparr>task_stage = AwaitControl, task_action = a, task_pair = pairId,
                  task_btn = btn_key B pairId btnId, task_edit = edit_key btnId\<rparr>"
  have settled: "\<exists>pg2 evs2 res2. toggleBot_control_settled pg (?t a) control_out = (pg2, evs2, res2)
                   \<and> issued evs2 = []" for a
  proof -
    obtain pg2 evs2 res2 where c: "toggleBot_control_settled pg (?t a) control_out = (pg2, evs2, res2)"
      by (cases "toggleBot_control_settled pg (?t a) control_out") auto
    from toggleBot_control_settled_issued[OF c] have "issued evs2 = []" by auto
    with c show ?thesis by blast
  qed
  {
    assume s: "js_trim (innerText btn) = ''Start''"
    show "\<exists>pg' rest res.
            toggleBot B pg pairId symbol exchange mode btnId clear_out control_out =
              Inr (pg', Issued (ClearOpenPositions symbol exchange mode) # rest, res) \<and>
            (case clear_out of
               Resolved r \<Rightarrow>
                 (\<exists>rest'. rest = Fulfilled (ClearOpenPositions symbol exchange mode) #
                             Issued (Control ''start'' pairId) # rest' \<and> issued rest' = [])
             | Rejected m \<Rightarrow> issued rest = [])"
    proof (cases clear_out)
      case (Rejected m)
      then show ?thesis using assms s
        by (simp add: toggleBot_def toggleBot_start_def toggle_action_def Let_def
            toggleBot_clear_settled_def toggleBot_catch_def)
    next
      case (Resolved r)
      from settled[of "''start''"] obtain pg2 evs2 res2 where
        "toggleBot_control_settled pg (?t ''start'') control_out = (pg2, evs2, res2)"
        "issued evs2 = []" by blast
      then show ?thesis using assms s Resolved
        by (simp add: toggleBot_def toggleBot_start_def toggle_action_def Let_def
            toggleBot_clear_settled_def)
    qed
  }
  {
    assume s: "js_trim (innerText btn) = ''Stop''"
    from settled[of "''stop''"] obtain pg2 evs2 res2 where
      "toggleBot_control_settled pg (?t ''stop'') control_out = (pg2, evs2, res2)"
      "issued evs2 = []" by blast
    then show "\<exists>pg' rest res.
                toggleBot B pg pairId symbol exchange mode btnId clear_out control_out =
                  Inr (pg', Issued (Control ''stop'' pairId) # rest, res) \<and> issued rest = []"
      using assms s
      by (simp add: toggleBot_def toggleBot_start_def toggle_action_def Let_def)
  }
qed

text \<open>
  The start flow of pair 7 and a stop of the running pair, both with requests that
  resolve.
\<close>

theorem toggleBot_request_order_witness:
  "\<forall>B.
   getElementById stopped_page (btn_key B (JNum (Fin 7)) (Some ''action-7'')) =
     Some \<lparr>innerText = ''Start'', classList = {''btn'', ''btn-success''}\<rparr> \<and>
   js_trim ''Start'' = ''Start'' \<and>
   (\<exists>pg' rest' res.
      toggleBot B stopped_page (JNum (Fin 7)) ''BTCUSDC'' ''binance'' ''real'' (Some ''action-7'')
        (Resolved (ok_response ())) (Resolved (ok_response (Data (JStr ''ok'') (JBool True)))) =
      Inr (pg', Issued (ClearOpenPositions ''BTCUSDC'' ''binance'' ''real'') #
                Fulfilled (ClearOpenPositions ''BTCUSDC'' ''binance'' ''real'') #
                Issued (Control ''start'' (JNum (Fin 7))) # rest', res) \<and> issued rest' = []) \<and>
   getElementById running_page (btn_key B (JNum (Fin 7)) (Some ''action-7'')) =
     Some \<lparr>innerText = ''Stop'', classList = {''btn'', ''btn-danger''}\<rparr> \<and>
   js_trim ''Stop'' = ''Stop'' \<and>
   (\<exists>pg' rest res.
      toggleBot B running_page (JNum (Fin 7)) ''BTCUSDC'' ''binance'' ''real'' (Some ''action-7'')
        (Resolved (ok_response ())) (Resolved (ok_response (Data (JStr ''ok'') (JBool False)))) =
      Inr (pg', Issued (Control ''stop'' (JNum (Fin 7))) # rest, res) \<and> issued rest = [])"
  (is "\<forall>B. ?P B")
proof
  fix B
  have a: "getElementById stopped_page (btn_key B (JNum (Fin 7)) (Some ''action-7'')) =
     Some \<lparr>innerText = ''Start'', classList = {''btn'', ''btn-success''}\<rparr>"
    by (simp add: getElementById_def btn_key_def given_def stopped_page_def)
  have b: "getElementById running_page (btn_key B (JNum (Fin 7)) (Some ''action-7'')) =
     Some \<lparr>innerText = ''Stop'', classList = {''btn'', ''btn-danger''}\<rparr>"
    by (simp add: getElementById_def btn_key_def given_def running_page_def)
  have c: "js_trim ''Start'' = ''Start''" "js_trim ''Stop'' = ''Stop''"
    by (simp_all add: js_trim_def is_space_def)
  from toggleBot_request_order[OF a, of "''BTCUSDC''" "''binance''" "''real''"
      "Resolved (ok_response ())" "Resolved (ok_response (Data (JStr ''ok'') (JBool True)))"]
    toggleBot_request_order[OF b, of "''BTCUSDC''" "''binance''" "''real''"
      "Resolved (ok_response ())" "Resolved (ok_response (Data (JStr ''ok'') (JBool False)))"]
  show "?P B" using a b c by auto
qed

subsection \<open>Start/Stop buttons and edit controls\<close>

lemma get_put_element [simp]:
  "getElementById (put_element pg i e) k = (if k = i then Some e else getElementById pg k)"
  by (simp add: getElementById_def put_element_def)

lemma get_set_edit_disabled:
  "getElementById (set_edit_disabled pg i r) k =
     (if k = i
      then map_option (\<lambda>e. if r then class_add ''disabled'' e else class_remove ''disabled'' e)
             (getElementById pg i)
      else getElementById pg k)"
  by (simp add: set_edit_disabled_def split: option.splits)

lemma innerText_class [simp]:
  "innerText (class_add c e) = innerText e"
  "innerText (class_remove c e) = innerText e"
  "innerText (class_toggle c f e) = innerText e"
  by (simp_all add: class_add_def class_remove_def class_toggle_def split: option.splits bool.splits)

lemma js_trim_labels [simp]: "js_trim ''Start'' = ''Start''" "js_trim ''Stop'' = ''Stop''"
  by (simp_all add: js_trim_def is_space_def)

lemma label_show_running:
  "js_trim (innerText (show_running r b)) = (if truthy r then ''Stop'' else ''Start'')"
  by (simp add: show_running_def)

lemma disabled_class [simp]:
  "''disabled'' \<in> classList (class_add ''disabled'' e)"
  "''disabled'' \<notin> classList (class_remove ''disabled'' e)"
  by (simp_all add: class_add_def class_remove_def)

lemma action_edit_ids [simp]:
  "(action_id p = action_id q) = (p = q)"
  "(edit_action_id p = edit_action_id q) = (p = q)"
  "action_id p \<noteq> edit_action_id q"
  "edit_action_id q \<noteq> action_id p"
  "''edit-'' @ action_id p = edit_action_id p"
  by (simp_all add: action_id_def edit_action_id_def)

lemma status_step_ids:
  "status_step pg (k, v) =
     (case getElementById pg (action_id k) of
        None \<Rightarrow> pg
      | Some btn \<Rightarrow>
          set_edit_disabled (put_element pg (action_id k) (show_running v btn))
            (edit_action_id k) (truthy v))"
  by (simp add: status_step_def action_id_def edit_action_id_def split: option.splits)

lemma status_step_key: "edit_consistent (status_step pg (k, v)) k"
  by (auto simp: edit_consistent_def status_step_ids label_def disabled_def
      get_set_edit_disabled label_show_running
      split: option.splits)

lemma status_step_other:
  "p \<noteq> k \<Longrightarrow> edit_consistent (status_step pg (k, v)) p = edit_consistent pg p"
  by (auto simp: edit_consistent_def status_step_ids label_def disabled_def
      get_set_edit_disabled
      split: option.splits)

lemma foldl_status_step:
  "p \<in> fst ` set sts \<or> edit_consistent pg p \<Longrightarrow> edit_consistent (foldl status_step pg sts) p"
proof (induction sts arbitrary: pg)
  case Nil
  then show ?case by simp
next
  case (Cons kv sts)
  obtain k v where kv: "kv = (k, v)" by (cases kv)
  have "p \<in> fst ` set sts \<or> edit_consistent (status_step pg kv) p"
  proof (cases "p = k")
    case True
    then show ?thesis using status_step_key kv by simp
  next
    case False
    then show ?thesis using Cons.prems kv status_step_other by auto
  qed
  from Cons.IH[OF this] show ?case by simp
qed

lemma toggleBot_start_task:
  assumes "toggleBot_start B pg pairId symbol exchange mode btnId = Inr (pg0, t, evs)"
  shows "pg0 = pg" "task_btn t = btn_key B pairId btnId" "task_edit t = edit_key btnId"
    "task_pair t = pairId"
    "\<exists>btn. getElementById pg (btn_key B pairId btnId) = Some btn \<and>
           task_action t = toggle_action (innerText btn)"
  using assms by (auto simp: toggleBot_start_def Let_def split: option.splits)

lemma toggleBot_data_page:
  assumes "toggleBot_data pg t d = (pg', evs, res)"
  shows "case res of
           Inl err \<Rightarrow>
             pg' = (case task_edit t of None \<Rightarrow> pg | Some i \<Rightarrow> set_edit_disabled pg i False)
         | Inr d' \<Rightarrow>
             d' = d \<and> (\<exists>st run. d = Data st run \<and> status_invalid st = Inr None \<and>
               pg' = (let pg1 = (case getElementById pg (task_btn t) of
                                   None \<Rightarrow> pg
                                 | Some btn \<Rightarrow> put_element pg (task_btn t) (show_running run btn))
                      in case task_edit t of
                           None \<Rightarrow> pg1
                         | Some i \<Rightarrow> set_edit_disabled pg1 i (truthy run)))"
  using assms
  by (auto simp: toggleBot_data_def toggleBot_catch_def Let_def
      split: control_data.splits sum.splits option.splits)

lemma toggleBot_control_settled_page:
  assumes "toggleBot_control_settled pg t out = (pg', evs, res)"
  shows "case res of
           Inl err \<Rightarrow>
             pg' = (case task_edit t of None \<Rightarrow> pg | Some i \<Rightarrow> set_edit_disabled pg i False)
         | Inr d \<Rightarrow>
             (\<exists>st run. d = Data st run \<and> status_invalid st = Inr None \<and>
                (\<exists>r. out = Resolved r \<and> ok r \<and> body r = Some d) \<and>
               pg' = (let pg1 = (case getElementById pg (task_btn t) of
                                   None \<Rightarrow> pg
                                 | Some btn \<Rightarrow> put_element pg (task_btn t) (show_running run btn))
                      in case task_edit t of
                           None \<Rightarrow> pg1
                         | Some i \<Rightarrow> set_edit_disabled pg1 i (truthy run)))"
proof (cases out)
  case (Rejected m)
  then show ?thesis using assms
    by (auto simp: toggleBot_control_settled_def toggleBot_catch_def)
next
  case (Resolved r)
  show ?thesis
  proof (cases "ok r")
    case False
    then show ?thesis using assms Resolved
      by (auto simp: toggleBot_control_settled_def toggleBot_catch_def)
  next
    case True
    show ?thesis
    proof (cases "body r")
      case None
      then show ?thesis using assms Resolved True
        by (auto simp: toggleBot_control_settled_def toggleBot_catch_def)
    next
      case (Some d)
      obtain p1 e1 r1 where td: "toggleBot_data pg t d = (p1, e1, r1)"
        by (cases "toggleBot_data pg t d") auto
      with assms Resolved True Some have "pg' = p1" "res = r1"
        by (auto simp: toggleBot_control_settled_def)
      with toggleBot_data_page[OF td] Resolved True Some show ?thesis
        by (cases r) (auto split: sum.splits)
    qed
  qed
qed

lemma edit_key_neq: "edit_key btnId = Some i \<Longrightarrow> i \<noteq> btn_key B pairId btnId"
  by (auto simp: edit_key_def btn_key_def split: option.splits)

lemma toggleBot_clear_settled_page:
  assumes "toggleBot_clear_settled pg t symbol exchange mode out = (pg', evs, r)"
  shows "case r of
           Inl t' \<Rightarrow> pg' = pg \<and> t' = t\<lparr>task_stage := AwaitControl\<rparr> \<and> (\<exists>x. out = Resolved x)
         | Inr res \<Rightarrow>
             pg' = (case task_edit t of None \<Rightarrow> pg | Some i \<Rightarrow> set_edit_disabled pg i False) \<and>
             (\<exists>m. out = Rejected m \<and> res = Inl (FetchFailed m))"
  using assms
  by (auto simp: toggleBot_clear_settled_def toggleBot_catch_def split: fetch_outcome.splits)

lemma toggleBot_page:
  assumes "toggleBot B pg pairId symbol exchange mode btnId clear_out control_out = Inr (pg', evs, res)"
  shows "case res of
           Inl err \<Rightarrow> pg' = failed_page pg btnId
         | Inr d \<Rightarrow> (\<exists>st run. d = Data st run \<and> status_invalid st = Inr None \<and>
                        (\<exists>r. control_out = Resolved r \<and> ok r \<and> body r = Some d) \<and>
                        pg' = confirmed_page B pg pairId btnId run)"
proof -
  from assms obtain pg0 t evs0 where
    st: "toggleBot_start B pg pairId symbol exchange mode btnId = Inr (pg0, t, evs0)"
    by (auto simp: toggleBot_def split: sum.splits)
  note tk = toggleBot_start_task[OF st]
  have ctl: "case res' of
           Inl err \<Rightarrow> pg2 = failed_page pg btnId
         | Inr d \<Rightarrow> (\<exists>st run. d = Data st run \<and> status_invalid st = Inr None \<and>
                        (\<exists>r. control_out = Resolved r \<and> ok r \<and> body r = Some d) \<and>
                        pg2 = confirmed_page B pg pairId btnId run)"
    if "toggleBot_control_settled pg t' control_out = (pg2, evs2, res')"
      and "task_btn t' = task_btn t" "task_edit t' = task_edit t"
    for t' pg2 evs2 res'
    using toggleBot_control_settled_page[OF that(1)] that(2,3) tk
    by (auto simp: failed_page_def confirmed_page_def Let_def split: sum.splits option.splits)
  show ?thesis
  proof (cases "task_stage t")
    case AwaitControl
    obtain pg2 evs2 res2 where c: "toggleBot_control_settled pg t control_out = (pg2, evs2, res2)"
      by (cases "toggleBot_control_settled pg t control_out") auto
    with assms st tk AwaitControl have "pg' = pg2" "res = res2"
      by (auto simp: toggleBot_def)
    with ctl[OF c] show ?thesis by (auto split: sum.splits)
  next
    case AwaitClear
    obtain pg1 evs1 r1 where
      cl: "toggleBot_clear_settled pg t symbol exchange mode clear_out = (pg1, evs1, r1)"
      by (cases "toggleBot_clear_settled pg t symbol exchange mode clear_out") auto
    show ?thesis
    proof (cases r1)
      case (Inr res1)
      with assms st tk AwaitClear cl have "pg' = pg1" "res = res1"
        by (auto simp: toggleBot_def)
      with toggleBot_clear_settled_page[OF cl] Inr tk show ?thesis
        by (auto simp: failed_page_def)
    next
      case (Inl t1)
      with toggleBot_clear_settled_page[OF cl] have
        t1: "pg1 = pg" "t1 = t\<lparr>task_stage := AwaitControl\<rparr>" by auto
      obtain pg2 evs2 res2 where c: "toggleBot_control_settled pg t1 control_out = (pg2, evs2, res2)"
        by (cases "toggleBot_control_settled pg t1 control_out") auto
      with assms st tk AwaitClear cl Inl t1 have "pg' = pg2" "res = res2"
        by (auto simp: toggleBot_def)
      with ctl[OF c] t1 show ?thesis by (auto split: sum.splits)
    qed
  qed
qed

lemma label_failed_page:
  "label (failed_page pg btnId) (btn_key B pairId btnId) = label pg (btn_key B pairId btnId)"
  using edit_key_neq[of btnId _ B pairId]
  by (auto simp: failed_page_def label_def get_set_edit_disabled split: option.splits)

lemma label_confirmed_page:
  "getElementById pg (btn_key B pairId btnId) = Some btn \<Longrightarrow>
   label (confirmed_page B pg pairId btnId run) (btn_key B pairId btnId) =
     Some (if truthy run then ''Stop'' else ''Start'')"
  using edit_key_neq[of btnId _ B pairId]
  by (auto simp: confirmed_page_def label_def get_set_edit_disabled Let_def label_show_running
      split: option.splits)

text \<open>
  C2, as amended. A toggle changes nothing on the page before a response arrives: the
  page is the same when \<open>toggleBot\<close> returns, and the button's label is the same after the
  clear-open-positions request settled. When the call ends with the promise fulfilled,
  the control request was answered with an ok response, the promise is fulfilled with the
  body of that response, and the label is "Stop" or "Start" by the \<open>bot_is_running\<close> of
  that body; when it ends with the promise rejected, the label is the one before the
  click, which was never changed.
\<close>

theorem toggleBot_label_follows_response:
  "(\<forall>pg0 t evs0.
      toggleBot_start B pg pairId symbol exchange mode btnId = Inr (pg0, t, evs0) \<longrightarrow>
        pg0 = pg \<and>
        (\<forall>out pg1 evs1 r1.
           toggleBot_clear_settled pg0 t symbol exchange mode (out :: unit fetch_outcome) =
             (pg1, evs1, r1) \<longrightarrow>
           label pg1 (btn_key B pairId btnId) = label pg (btn_key B pairId btnId))) \<and>
   (\<forall>pg' evs res.
      toggleBot B pg pairId symbol exchange mode btnId clear_out control_out = Inr (pg', evs, res) \<longrightarrow>
        (case res of
           Inl err \<Rightarrow> label pg' (btn_key B pairId btnId) = label pg (btn_key B pairId btnId)
         | Inr d \<Rightarrow>
             (\<exists>r st run. control_out = Resolved r \<and> ok r \<and> body r = Some (Data st run) \<and>
                d = Data st run \<and>
                label pg' (btn_key B pairId btnId) =
                  Some (if truthy run then ''Stop'' else ''Start''))))"
proof (intro conjI allI impI)
  fix pg0 t evs0
  assume st: "toggleBot_start B pg pairId symbol exchange mode btnId = Inr (pg0, t, evs0)"
  show "pg0 = pg" using toggleBot_start_task(1)[OF st] .
next
  fix pg0 t evs0 and out :: "unit fetch_outcome" and pg1 evs1 r1
  assume st: "toggleBot_start B pg pairId symbol exchange mode btnId = Inr (pg0, t, evs0)"
    and cl: "toggleBot_clear_settled pg0 t symbol exchange mode out = (pg1, evs1, r1)"
  note tk = toggleBot_start_task[OF st]
  from toggleBot_clear_settled_page[OF cl] tk
  have "pg1 = pg \<or> pg1 = failed_page pg btnId"
    by (auto simp: failed_page_def split: sum.splits)
  then show "label pg1 (btn_key B pairId btnId) = label pg (btn_key B pairId btnId)"
    using label_failed_page by auto
next
  fix pg' evs res
  assume run: "toggleBot B pg pairId symbol exchange mode btnId clear_out control_out =
    Inr (pg', evs, res)"
  from run obtain pg0 t evs0 where
    st: "toggleBot_start B pg pairId symbol exchange mode btnId = Inr (pg0, t, evs0)"
    by (auto simp: toggleBot_def split: sum.splits)
  from toggleBot_start_task(5)[OF st] obtain btn where
    btn: "getElementById pg (btn_key B pairId btnId) = Some btn" by blast
  show "case res of
           Inl err \<Rightarrow> label pg' (btn_key B pairId btnId) = label pg (btn_key B pairId btnId)
         | Inr d \<Rightarrow>
             (\<exists>r st run. control_out = Resolved r \<and> ok r \<and> body r = Some (Data st run) \<and>
                d = Data st run \<and>
                label pg' (btn_key B pairId btnId) =
                  Some (if truthy run then ''Stop'' else ''Start''))"
  proof (cases res)
    case (Inl err)
    with toggleBot_page[OF run] show ?thesis by (simp add: label_failed_page)
  next
    case (Inr d)
    with toggleBot_page[OF run] obtain st run r where
      "d = Data st run" "pg' = confirmed_page B pg pairId btnId run"
      "control_out = Resolved r" "ok r" "body r = Some d" by auto
    with Inr label_confirmed_page[OF btn, of run] show ?thesis by simp
  qed
qed

lemma stopped_start:
  "toggleBot_start B stopped_page (JNum (Fin 7)) ''BTCUSDC'' ''binance'' ''real'' (Some ''action-7'') =
     Inr (stopped_page,
          \<lparr>task_stage = AwaitClear, task_action = ''start'', task_pair = JNum (Fin 7),
            task_btn = ''action-7'', task_edit = Some ''edit-action-7''\<rparr>,
          [Issued (ClearOpenPositions ''BTCUSDC'' ''binance'' ''real'')])"
  by (simp add: toggleBot_start_def stopped_page_def getElementById_def btn_key_def given_def
      edit_key_def toggle_action_def Let_def)

text \<open>
  C2 as stated fails: when the user clicks "Start" on pair 7, the page shown once
  \<open>toggleBot\<close> has returned, with the first request in flight, is the page before the
  click, and the button still reads "Start".
\<close>

theorem toggleBot_no_optimistic_flip:
  "\<forall>B. \<exists>t evs.
     toggleBot_start B stopped_page (JNum (Fin 7)) ''BTCUSDC'' ''binance'' ''real''
       (Some ''action-7'') = Inr (stopped_page, t, evs) \<and>
     label stopped_page ''action-7'' = Some ''Start''"
  by (simp add: stopped_start) (simp add: label_def stopped_page_def getElementById_def)

lemma running_start:
  "toggleBot_start B running_page (JNum (Fin 7)) ''BTCUSDC'' ''binance'' ''real'' (Some ''action-7'') =
     Inr (running_page,
          \<lparr>task_stage = AwaitControl, task_action = ''stop'', task_pair = JNum (Fin 7),
            task_btn = ''action-7'', task_edit = Some ''edit-action-7''\<rparr>,
          [Issued (Control ''stop'' (JNum (Fin 7)))])"
  by (simp add: toggleBot_start_def running_page_def getElementById_def btn_key_def given_def
      edit_key_def toggle_action_def Let_def)

lemma failed_stop_run:
  "toggleBot B running_page (JNum (Fin 7)) ''BTCUSDC'' ''binance'' ''real'' (Some ''action-7'')
       (Resolved (ok_response ())) (Rejected ''Failed to fetch'') =
   Inr (set_edit_disabled running_page ''edit-action-7'' False,
        [Issued (Control ''stop'' (JNum (Fin 7))), Failed (Control ''stop'' (JNum (Fin 7))),
         AlertTradeError (FetchFailed ''Failed to fetch'')],
        Inl (FetchFailed ''Failed to fetch''))"
  by (simp add: toggleBot_def running_start toggleBot_control_settled_def toggleBot_catch_def)

text \<open>
  C1 as stated fails: pair 7 is running and its edit control is disabled; the user clicks
  "Stop" and the control request fails. The button still reads "Stop" and the edit control
  is enabled.
\<close>

theorem failed_stop_enables_edit:
  "\<forall>B. \<exists>pg' evs err.
     toggleBot B running_page (JNum (Fin 7)) ''BTCUSDC'' ''binance'' ''real'' (Some ''action-7'')
       (Resolved (ok_response ())) (Rejected ''Failed to fetch'') = Inr (pg', evs, Inl err) \<and>
     label pg' (action_id ''7'') = Some ''Stop'' \<and>
     disabled pg' (edit_action_id ''7'') = Some False \<and>
     \<not> edit_consistent pg' ''7''"
  unfolding failed_stop_run
  by (simp add: edit_consistent_def label_def disabled_def set_edit_disabled_def put_element_def
      class_remove_def running_page_def getElementById_def action_id_def edit_action_id_def)

lemma keys_of_action_id [simp]:
  "btn_key B pairId (Some (action_id p)) = action_id p"
  "edit_key (Some (action_id p)) = Some (edit_action_id p)"
  by (simp_all add: btn_key_def edit_key_def given_def action_id_def edit_action_id_def)

lemma failed_page_pair:
  "label (failed_page pg (Some (action_id p))) (action_id q) = label pg (action_id q)"
  "disabled (failed_page pg (Some (action_id p))) (edit_action_id q) =
     (if q = p then map_option (\<lambda>d. False) (disabled pg (edit_action_id p))
      else disabled pg (edit_action_id q))"
  by (auto simp: failed_page_def label_def disabled_def get_set_edit_disabled option.map_comp
      o_def split: option.splits)

lemma confirmed_page_pair:
  assumes "getElementById pg (action_id p) = Some btn"
  shows "label (confirmed_page B pg pairId (Some (action_id p)) run) (action_id q) =
           (if q = p then Some (if truthy run then ''Stop'' else ''Start'')
            else label pg (action_id q))"
    "disabled (confirmed_page B pg pairId (Some (action_id p)) run) (edit_action_id q) =
       (if q = p then map_option (\<lambda>d. truthy run) (disabled pg (edit_action_id p))
        else disabled pg (edit_action_id q))"
  using assms
  by (auto simp: confirmed_page_def label_def disabled_def get_set_edit_disabled Let_def
      label_show_running option.map_comp o_def split: option.splits)

lemma updateAllBotStatuses_consistent:
  "edit_consistent pg q \<Longrightarrow> edit_consistent (updateAllBotStatuses pg out) q"
  by (auto simp: updateAllBotStatuses_def foldl_status_step split: fetch_outcome.splits option.splits)

lemma toggleBot_other_pairs:
  assumes run: "toggleBot B pg pairId symbol exchange mode (Some (action_id p)) clear_out
    control_out = Inr (pg', evs, res)" and q: "q \<noteq> p"
  shows "label pg' (action_id q) = label pg (action_id q)"
    and "disabled pg' (edit_action_id q) = disabled pg (edit_action_id q)"
proof -
  from run obtain pg0 t evs0 where
    st: "toggleBot_start B pg pairId symbol exchange mode (Some (action_id p)) = Inr (pg0, t, evs0)"
    by (auto simp: toggleBot_def split: sum.splits)
  from toggleBot_start_task(5)[OF st] obtain btn where
    btn: "getElementById pg (action_id p) = Some btn" by auto
  from toggleBot_page[OF run] q have
    "label pg' (action_id q) = label pg (action_id q) \<and>
     disabled pg' (edit_action_id q) = disabled pg (edit_action_id q)"
    by (cases res) (auto simp: failed_page_pair confirmed_page_pair[OF btn])
  then show "label pg' (action_id q) = label pg (action_id q)"
    and "disabled pg' (edit_action_id q) = disabled pg (edit_action_id q)" by simp_all
qed

text \<open>
  C1, as amended. A poll of the bot statuses keeps the invariant of every pair that had
  it, whatever the outcome of the request, and establishes it for every pair of the
  response. A toggle of pair \<open>p\<close> leaves the label and the disabled state of the edit
  control of every other pair as they were. When it succeeds, the control request was
  answered with an ok response, the label of pair \<open>p\<close> is "Stop" or "Start" by the
  \<open>bot_is_running\<close> of that response, its edit control, if there is one, is disabled
  exactly when \<open>bot_is_running\<close> is truthy, and so pair \<open>p\<close> has the invariant. When it
  fails, the label of pair \<open>p\<close> is unchanged and its edit control is enabled, whatever the
  label says.
\<close>

theorem edit_control_after_poll_and_toggle:
  "(\<forall>q. edit_consistent pg q \<longrightarrow> edit_consistent (updateAllBotStatuses pg out) q) \<and>
   (\<forall>r statuses q.
      out = Resolved r \<and> ok r \<and> body r = Some statuses \<and> q \<in> fst ` set statuses \<longrightarrow>
      edit_consistent (updateAllBotStatuses pg out) q) \<and>
   (\<forall>pg' evs res.
      toggleBot B pg pairId symbol exchange mode (Some (action_id p)) clear_out control_out =
        Inr (pg', evs, res) \<longrightarrow>
      (\<forall>q. q \<noteq> p \<longrightarrow>
           label pg' (action_id q) = label pg (action_id q) \<and>
           disabled pg' (edit_action_id q) = disabled pg (edit_action_id q)) \<and>
      (case res of
         Inr d \<Rightarrow>
           edit_consistent pg' p \<and>
           (\<exists>r st run.
              control_out = Resolved r \<and> ok r \<and> body r = Some (Data st run) \<and>
              d = Data st run \<and>
              label pg' (action_id p) = Some (if truthy run then ''Stop'' else ''Start'') \<and>
              disabled pg' (edit_action_id p) =
                map_option (\<lambda>d. truthy run) (disabled pg (edit_action_id p)))
       | Inl err \<Rightarrow>
           label pg' (action_id p) = label pg (action_id p) \<and>
           disabled pg' (edit_action_id p) =
             map_option (\<lambda>d. False) (disabled pg (edit_action_id p))))"
proof (intro conjI allI impI)
  fix q assume "edit_consistent pg q"
  then show "edit_consistent (updateAllBotStatuses pg out) q"
    by (rule updateAllBotStatuses_consistent)
next
  fix r statuses q
  assume "out = Resolved r \<and> ok r \<and> body r = Some statuses \<and> q \<in> fst ` set statuses"
  then show "edit_consistent (updateAllBotStatuses pg out) q"
    by (simp add: updateAllBotStatuses_def foldl_status_step)
next
  fix pg' evs res q
  assume run: "toggleBot B pg pairId symbol exchange mode (Some (action_id p)) clear_out
    control_out = Inr (pg', evs, res)" and q: "q \<noteq> p"
  then show "label pg' (action_id q) = label pg (action_id q)"
    by (rule toggleBot_other_pairs(1))
next
  fix pg' evs res q
  assume run: "toggleBot B pg pairId symbol exchange mode (Some (action_id p)) clear_out
    control_out = Inr (pg', evs, res)" and q: "q \<noteq> p"
  then show "disabled pg' (edit_action_id q) = disabled pg (edit_action_id q)"
    by (rule toggleBot_other_pairs(2))
next
  fix pg' evs res
  assume run: "toggleBot B pg pairId symbol exchange mode (Some (action_id p)) clear_out
    control_out = Inr (pg', evs, res)"
  from run obtain pg0 t evs0 where
    st: "toggleBot_start B pg pairId symbol exchange mode (Some (action_id p)) = Inr (pg0, t, evs0)"
    by (auto simp: toggleBot_def split: sum.splits)
  from toggleBot_start_task(5)[OF st] obtain btn where
    btn: "getElementById pg (action_id p) = Some btn" by auto
  show "case res of
         Inr d \<Rightarrow>
           edit_consistent pg' p \<and>
           (\<exists>r st run.
              control_out = Resolved r \<and> ok r \<and> body r = Some (Data st run) \<and>
              d = Data st run \<and>
              label pg' (action_id p) = Some (if truthy run then ''Stop'' else ''Start'') \<and>
              disabled pg' (edit_action_id p) =
                map_option (\<lambda>d. truthy run) (disabled pg (edit_action_id p)))
       | Inl err \<Rightarrow>
           label pg' (action_id p) = label pg (action_id p) \<and>
           disabled pg' (edit_action_id p) =
             map_option (\<lambda>d. False) (disabled pg (edit_action_id p))"
  proof (cases res)
    case (Inl err)
    with toggleBot_page[OF run] show ?thesis
      by (simp add: failed_page_pair)
  next
    case (Inr d)
    with toggleBot_page[OF run] obtain st run r where
      d: "d = Data st run" "pg' = confirmed_page B pg pairId (Some (action_id p)) run"
        "control_out = Resolved r" "ok r" "body r = Some d" by auto
    have l: "label pg' (action_id p) = Some (if truthy run then ''Stop'' else ''Start'')"
      and e: "disabled pg' (edit_action_id p) =
                map_option (\<lambda>d. truthy run) (disabled pg (edit_action_id p))"
      using d(2) by (simp_all add: confirmed_page_pair[OF btn])
    then have "edit_consistent pg' p"
      by (auto simp: edit_consistent_def split: option.splits)
    with Inr d l e show ?thesis by simp
  qed
qed

lemma ok_not_invalid [simp]: "\<not> js_includes (toLowerCase ''ok'') ''invalid''"
  by (simp add: toLowerCase_def lower_char_def)

lemma stopped_button:
  "getElementById stopped_page (action_id ''7'') =
     Some \<lparr>innerText = ''Start'', classList = {''btn'', ''btn-success''}\<rparr>"
  by (simp add: stopped_page_def getElementById_def action_id_def)

lemma start_flow_run:
  "\<exists>pg'. toggleBot B stopped_page (JNum (Fin 7)) ''BTCUSDC'' ''binance'' ''real'' (Some ''action-7'')
       (Resolved (ok_response ())) (Resolved (ok_response (Data (JStr ''ok'') (JBool True)))) =
     Inr (pg', [Issued (ClearOpenPositions ''BTCUSDC'' ''binance'' ''real''),
                Fulfilled (ClearOpenPositions ''BTCUSDC'' ''binance'' ''real''),
                Issued (Control ''start'' (JNum (Fin 7))),
                Fulfilled (Control ''start'' (JNum (Fin 7)))],
          Inr (Data (JStr ''ok'') (JBool True)))"
  by (simp add: toggleBot_def stopped_start toggleBot_clear_settled_def
      toggleBot_control_settled_def toggleBot_data_def ok_response_def Let_def)

lemma start_flow_rejected:
  "\<exists>pg'. toggleBot B stopped_page (JNum (Fin 7)) ''BTCUSDC'' ''binance'' ''real'' (Some ''action-7'')
       (Resolved (ok_response ())) (Rejected ''Failed to fetch'') =
     Inr (pg', [Issued (ClearOpenPositions ''BTCUSDC'' ''binance'' ''real''),
                Fulfilled (ClearOpenPositions ''BTCUSDC'' ''binance'' ''real''),
                Issued (Control ''start'' (JNum (Fin 7))),
                Failed (Control ''start'' (JNum (Fin 7))),
                AlertTradeError (FetchFailed ''Failed to fetch'')],
          Inl (FetchFailed ''Failed to fetch''))"
  by (simp add: toggleBot_def stopped_start toggleBot_clear_settled_def
      toggleBot_control_settled_def toggleBot_catch_def ok_response_def Let_def)

lemma stopped_label: "label stopped_page ''action-7'' = Some ''Start''"
  by (simp add: label_def stopped_page_def getElementById_def)

text \<open>
  The start flow of pair 7, confirmed by the server, and the same click with a failing
  control request.
\<close>

theorem toggleBot_label_follows_response_witness:
  "\<forall>B.
     label stopped_page ''action-7'' = Some ''Start'' \<and>
     (\<exists>pg' evs.
        toggleBot B stopped_page (JNum (Fin 7)) ''BTCUSDC'' ''binance'' ''real'' (Some ''action-7'')
          (Resolved (ok_response ())) (Resolved (ok_response (Data (JStr ''ok'') (JBool True)))) =
          Inr (pg', evs, Inr (Data (JStr ''ok'') (JBool True))) \<and>
        label pg' ''action-7'' = Some ''Stop'') \<and>
     (\<exists>pg' evs err.
        toggleBot B stopped_page (JNum (Fin 7)) ''BTCUSDC'' ''binance'' ''real'' (Some ''action-7'')
          (Resolved (ok_response ())) (Rejected ''Failed to fetch'') = Inr (pg', evs, Inl err) \<and>
        label pg' ''action-7'' = Some ''Start'')"
  (is "\<forall>B. ?P B")
proof
  fix B
  have k: "btn_key B (JNum (Fin 7)) (Some ''action-7'') = ''action-7''"
    by (simp add: btn_key_def given_def)
  from start_flow_run[of B] obtain pg1 evs1 where
    r1: "toggleBot B stopped_page (JNum (Fin 7)) ''BTCUSDC'' ''binance'' ''real'' (Some ''action-7'')
          (Resolved (ok_response ())) (Resolved (ok_response (Data (JStr ''ok'') (JBool True)))) =
          Inr (pg1, evs1, Inr (Data (JStr ''ok'') (JBool True)))" by blast
  from start_flow_rejected[of B] obtain pg2 evs2 err where
    r2: "toggleBot B stopped_page (JNum (Fin 7)) ''BTCUSDC'' ''binance'' ''real'' (Some ''action-7'')
          (Resolved (ok_response ())) (Rejected ''Failed to fetch'') = Inr (pg2, evs2, Inl err)"
    by blast
  from toggleBot_label_follows_response[THEN conjunct2, rule_format, OF r1]
  have l1: "label pg1 ''action-7'' = Some ''Stop''" by (simp add: k)
  from toggleBot_label_follows_response[THEN conjunct2, rule_format, OF r2]
  have l2: "label pg2 ''action-7'' = Some ''Start''" by (simp add: k stopped_label)
  from r1 r2 l1 l2 stopped_label show "?P B" by blast
qed

text \<open>
  A poll that reports pair 7 running, a confirmed start of pair 7 and a failed one.
\<close>

theorem edit_control_after_poll_and_toggle_witness:
  "edit_consistent stopped_page ''7'' \<and>
   ''7'' \<in> fst ` set [(''7'', JBool True)] \<and>
   edit_consistent
     (updateAllBotStatuses stopped_page (Resolved (ok_response [(''7'', JBool True)]))) ''7'' \<and>
   label (updateAllBotStatuses stopped_page (Resolved (ok_response [(''7'', JBool True)])))
     (action_id ''7'') = Some ''Stop'' \<and>
   (\<forall>B. \<exists>pg' evs d.
      toggleBot B stopped_page (JNum (Fin 7)) ''BTCUSDC'' ''binance'' ''real'' (Some (action_id ''7''))
        (Resolved (ok_response ())) (Resolved (ok_response (Data (JStr ''ok'') (JBool True)))) =
        Inr (pg', evs, Inr d) \<and>
       edit_consistent pg' ''7'' \<and> label pg' (action_id ''7'') = Some ''Stop'' \<and>
       disabled pg' (edit_action_id ''7'') = Some True) \<and>
   (\<forall>B. \<exists>pg' evs err.
      toggleBot B stopped_page (JNum (Fin 7)) ''BTCUSDC'' ''binance'' ''real'' (Some (action_id ''7''))
        (Resolved (ok_response ())) (Rejected ''Failed to fetch'') = Inr (pg', evs, Inl err) \<and>
      disabled pg' (edit_action_id ''7'') = Some False)"
proof (intro conjI allI)
  show c0: "edit_consistent stopped_page ''7''"
    by (simp add: edit_consistent_def label_def disabled_def stopped_page_def getElementById_def
        action_id_def edit_action_id_def)
  show "''7'' \<in> fst ` set [(''7'', JBool True)]" by simp
  show "edit_consistent
     (updateAllBotStatuses stopped_page (Resolved (ok_response [(''7'', JBool True)]))) ''7''"
    using edit_control_after_poll_and_toggle[THEN conjunct2, THEN conjunct1, rule_format,
        of "Resolved (ok_response [(''7'', JBool True)])" "ok_response [(''7'', JBool True)]"
           "[(''7'', JBool True)]" "''7''" stopped_page]
    by (simp add: ok_response_def)
  show "label (updateAllBotStatuses stopped_page (Resolved (ok_response [(''7'', JBool True)])))
     (action_id ''7'') = Some ''Stop''"
    by (simp add: updateAllBotStatuses_def ok_response_def status_step_ids stopped_button
        label_def get_set_edit_disabled label_show_running)
next
  fix B
  have a: "action_id ''7'' = ''action-7''" by (simp add: action_id_def)
  from start_flow_run[of B] obtain pg1 evs1 where
    r1: "toggleBot B stopped_page (JNum (Fin 7)) ''BTCUSDC'' ''binance'' ''real''
          (Some (action_id ''7''))
          (Resolved (ok_response ())) (Resolved (ok_response (Data (JStr ''ok'') (JBool True)))) =
          Inr (pg1, evs1, Inr (Data (JStr ''ok'') (JBool True)))" unfolding a by blast
  from edit_control_after_poll_and_toggle[THEN conjunct2, THEN conjunct2, rule_format, OF r1]
  have "edit_consistent pg1 ''7'' \<and> label pg1 (action_id ''7'') = Some ''Stop'' \<and>
      disabled pg1 (edit_action_id ''7'') = Some True"
    by (simp add: disabled_def stopped_page_def getElementById_def edit_action_id_def)
  then show "\<exists>pg' evs d.
      toggleBot B stopped_page (JNum (Fin 7)) ''BTCUSDC'' ''binance'' ''real'' (Some (action_id ''7''))
        (Resolved (ok_response ())) (Resolved (ok_response (Data (JStr ''ok'') (JBool True)))) =
        Inr (pg', evs, Inr d) \<and>
       edit_consistent pg' ''7'' \<and> label pg' (action_id ''7'') = Some ''Stop'' \<and>
       disabled pg' (edit_action_id ''7'') = Some True"
    using r1 by blast
next
  fix B
  have a: "action_id ''7'' = ''action-7''" by (simp add: action_id_def)
  from start_flow_rejected[of B] obtain pg2 evs2 err where
    r2: "toggleBot B stopped_page (JNum (Fin 7)) ''BTCUSDC'' ''binance'' ''real''
          (Some (action_id ''7''))
          (Resolved (ok_response ())) (Rejected ''Failed to fetch'') = Inr (pg2, evs2, Inl err)"
    unfolding a by blast
  from edit_control_after_poll_and_toggle[THEN conjunct2, THEN conjunct2, rule_format, OF r2]
  have "disabled pg2 (edit_action_id ''7'') = Some False"
    by (simp add: disabled_def stopped_page_def getElementById_def edit_action_id_def)
  with r2 show "\<exists>pg' evs err.
      toggleBot B stopped_page (JNum (Fin 7)) ''BTCUSDC'' ''binance'' ''real'' (Some (action_id ''7''))
        (Resolved (ok_response ())) (Rejected ''Failed to fetch'') = Inr (pg', evs, Inl err) \<and>
      disabled pg' (edit_action_id ''7'') = Some False" by blast
qed

subsection \<open>The price cache and the price cells\<close>

lemma market_row_text_simps [simp]:
  "market_row_text B (JNum x) =
     (if num_truthy x then Inr (''$'' @ toFixed B x 4) else Inr ''N/A'')"
  "market_row_text B (JStr t) =
     (if t \<noteq> [] \<and> t \<noteq> ''N/A'' then Inl TypeError else Inr ''N/A'')"
  "market_row_text B JNull = Inr ''N/A''"
  "market_row_text B JUndefined = Inr ''N/A''"
  "market_row_text B (JBool b) = (if b then Inl TypeError else Inr ''N/A'')"
  "market_row_text B (JObj t) = Inl TypeError"
  by (auto simp: market_row_text_def)

lemma priceCache_on_price_update:
  "priceCache (fst (on_price_update B st msg)) = priceCache st ++ map_of (entries (prices msg))"
  by (simp add: on_price_update_def Let_def split: prod.splits option.splits)

text \<open>
  C5. After a push message, the cached price of every symbol that is not among the
  message's prices is the one cached before, and the cached price of every symbol among
  them is the one the message carries.
\<close>

theorem push_delta_frame:
  "(s \<notin> fst ` set (entries (prices msg)) \<longrightarrow>
      priceCache (fst (on_price_update B st msg)) s = priceCache st s) \<and>
   (s \<in> fst ` set (entries (prices msg)) \<longrightarrow>
      priceCache (fst (on_price_update B st msg)) s = map_of (entries (prices msg)) s)"
proof (intro conjI impI)
  assume "s \<notin> fst ` set (entries (prices msg))"
  then have "map_of (entries (prices msg)) s = None"
    by (simp add: map_of_eq_None_iff)
  then show "priceCache (fst (on_price_update B st msg)) s = priceCache st s"
    by (simp add: priceCache_on_price_update map_add_def)
next
  assume "s \<in> fst ` set (entries (prices msg))"
  then obtain v where "map_of (entries (prices msg)) s = Some v"
    by (cases "map_of (entries (prices msg)) s") (auto simp: map_of_eq_None_iff)
  then show "priceCache (fst (on_price_update B st msg)) s = map_of (entries (prices msg)) s"
    by (simp add: priceCache_on_price_update map_add_def)
qed

text \<open>
  A push of \<open>{BTCUSDC: 50000}\<close> onto a cache that holds BTCUSDC and ETHUSDC.
\<close>

theorem push_delta_frame_witness:
  "\<forall>B. ''ETHUSDC'' \<notin> fst ` set (entries (prices btc_delta)) \<and>
       ''BTCUSDC'' \<in> fst ` set (entries (prices btc_delta)) \<and>
       priceCache (fst (on_price_update B two_price_state btc_delta)) ''ETHUSDC'' =
         Some (JNum (Fin 3000)) \<and>
       priceCache (fst (on_price_update B two_price_state btc_delta)) ''BTCUSDC'' =
         Some (JNum (Fin 50000))"
  using push_delta_frame[of "''ETHUSDC''" btc_delta _ two_price_state]
    push_delta_frame[of "''BTCUSDC''" btc_delta _ two_price_state]
  by (simp add: btc_delta_def entries_def two_price_state_def)







text \<open>
  The push handler and the edit control. A push that reports BTCUSDC running sets the
  button of pair 7 to "Stop" and looks the edit control up as \<open>edit-7\<close>; the control
  \<open>edit-action-7\<close>, which the poll and \<open>toggleBot\<close> disable, stays enabled.
\<close>

lemma push_running_page:
  "\<exists>pg'. push_step B [(''BTCUSDC'', JBool True)] stopped_page (''BTCUSDC'', JNum (Fin 50000)) =
           Inr pg' \<and>
     (\<forall>i. getElementById pg' i =
        (if i = ''price-7''
         then Some \<lparr>innerText = toFixed B (Fin 50000) 4, classList = {}\<rparr>
         else if i = ''action-7''
         then Some \<lparr>innerText = ''Stop'', classList = {''btn'', ''btn-danger''}\<rparr>
         else getElementById stopped_page i))"
  by (auto simp: push_step_def query_symbol_row_def plain_in_def stopped_page_def given_def
      getElementById_def put_element_def set_edit_disabled_def get_prop_def show_running_def
      class_toggle_def class_add_def class_remove_def Let_def)

lemma push_leaves_edit_control:
  "\<exists>pg'. push_step B [(''BTCUSDC'', JBool True)] stopped_page (''BTCUSDC'', JNum (Fin 50000)) =
           Inr pg' \<and>
     label pg' (action_id ''7'') = Some ''Stop'' \<and>
     disabled pg' (edit_action_id ''7'') = Some False"
proof -
  from push_running_page[of B] obtain pg' where
    a: "push_step B [(''BTCUSDC'', JBool True)] stopped_page (''BTCUSDC'', JNum (Fin 50000)) =
          Inr pg'"
    and b: "\<And>i. getElementById pg' i =
        (if i = ''price-7''
         then Some \<lparr>innerText = toFixed B (Fin 50000) 4, classList = {}\<rparr>
         else if i = ''action-7''
         then Some \<lparr>innerText = ''Stop'', classList = {''btn'', ''btn-danger''}\<rparr>
         else getElementById stopped_page i)"
    by blast
  have "label pg' (action_id ''7'') = Some ''Stop''"
    by (simp add: label_def b action_id_def)
  moreover have "disabled pg' (edit_action_id ''7'') = Some False"
    by (simp add: disabled_def b edit_action_id_def) (simp add: stopped_page_def getElementById_def)
  ultimately show ?thesis using a by blast
qed

subsection \<open>Notifications: alerts and the seen set\<close>

lemma alerts_of_simps [simp]:
  "alerts_of i [] = []"
  "alerts_of i (Alerted j t # evs) = (if j = i then Alerted j t # alerts_of i evs else alerts_of i evs)"
  "alerts_of i (Requested u # evs) = alerts_of i evs"
  "alerts_of i (Responded u # evs) = alerts_of i evs"
  "alerts_of i (RequestFailed u # evs) = alerts_of i evs"
  "alerts_of i (SeenCleared # evs) = alerts_of i evs"
  "alerts_of i (xs @ ys) = alerts_of i xs @ alerts_of i ys"
  by (simp_all add: alerts_of_def)

lemma render_notes_result:
  "\<exists>alerts. render_notes seen xs = (seen \<union> id_of ` set xs, map entry_of xs, alerts)"
proof (induction xs arbitrary: seen)
  case Nil
  then show ?case by simp
next
  case (Cons x xs)
  obtain s n where x: "x = (s, n)" by (cases x)
  from Cons.IH[of "insert (note_id s n) seen"] obtain al where
    "render_notes (insert (note_id s n) seen) xs =
       (insert (note_id s n) seen \<union> id_of ` set xs, map entry_of xs, al)" by blast
  then show ?case using x by (simp add: Let_def id_of_def entry_of_def)
qed

lemma render_notes_first:
  "render_notes seen xs = (seen', items, alerts) \<Longrightarrow>
   alerts_of i alerts =
     (if i \<in> seen then []
      else case find (\<lambda>x. id_of x = i) xs of
             None \<Rightarrow> []
           | Some x \<Rightarrow> if ntype (snd x) = ''error''
                       then [Alerted i (note_text (fst x) (snd x))] else [])"
proof (induction xs arbitrary: seen seen' items alerts)
  case Nil
  then show ?case by simp
next
  case (Cons x xs)
  obtain s n where x: "x = (s, n)" by (cases x)
  obtain s1 i1 a1 where r: "render_notes (insert (note_id s n) seen) xs = (s1, i1, a1)"
    by (cases "render_notes (insert (note_id s n) seen) xs") auto
  note ih = Cons.IH[OF r]
  from Cons.prems x r have al: "alerts =
      (if note_id s n \<notin> seen \<and> ntype n = ''error'' then [Alerted (note_id s n) (note_text s n)]
       else []) @ a1"
    by (simp add: Let_def)
  show ?case
  proof (cases "note_id s n = i")
    case True
    with ih have "alerts_of i a1 = []" by simp
    with al True x show ?thesis by (simp add: id_of_def)
  next
    case False
    with ih al x show ?thesis by (simp add: id_of_def)
  qed
qed

lemma updateNotifications_includes:
  assumes "list_items st = Some old" and "poll_includes symbol n out"
    and "updateNotifications st out = (st', evs)"
  shows "\<exists>items. list_items st' = Some items \<and>
           Entry (ntype n = ''error'') (note_text symbol n) \<in> set items"
    and "note_id symbol n \<in> seenNotifications st'"
    and "\<exists>r data. out = Resolved r \<and> body r = Some data \<and>
           alerts_of i evs =
           (if i \<in> seenNotifications st then []
            else case find (\<lambda>x. id_of x = i) (flat data) of
                   None \<Rightarrow> []
                 | Some x \<Rightarrow> if ntype (snd x) = ''error''
                             then [Alerted i (note_text (fst x) (snd x))] else [])"
proof -
  from assms(2) obtain r data where out: "out = Resolved r" "body r = Some data"
    and mem: "(symbol, n) \<in> set (flat data)"
    by (auto simp: poll_includes_def split: fetch_outcome.splits option.splits)
  define st1 where "st1 = (case count_shown st of
                   None \<Rightarrow> st
                 | Some c \<Rightarrow> st\<lparr>count_shown := Some (length (flat data))\<rparr>)"
  have st1: "list_items st1 = Some old" "seenNotifications st1 = seenNotifications st"
    using assms(1) by (auto simp: st1_def split: option.splits)
  obtain seen' items alerts where
    rn: "render_notes (seenNotifications st) (flat data) = (seen', items, alerts)"
    by (cases "render_notes (seenNotifications st) (flat data)") auto
  from render_notes_result[of "seenNotifications st" "flat data"] rn
  have res: "seen' = seenNotifications st \<union> id_of ` set (flat data)"
    "items = map entry_of (flat data)" by auto
  from assms(3) out st1 rn have st': "st' = st1\<lparr>seenNotifications := seen',
                       list_items := Some (items @ [Divider, ClearAll])\<rparr>"
    and evs: "evs = Requested ''/api/notifications'' # Responded ''/api/notifications'' # alerts"
    by (auto simp: updateNotifications_def show_notifications_def Let_def st1_def[symmetric])
  from mem have e: "entry_of (symbol, n) \<in> set items" "id_of (symbol, n) \<in> seen'"
    using res by auto
  show "\<exists>items. list_items st' = Some items \<and>
           Entry (ntype n = ''error'') (note_text symbol n) \<in> set items"
    using st' e by (auto simp: entry_of_def)
  show "note_id symbol n \<in> seenNotifications st'"
    using st' e by (auto simp: id_of_def)
  from render_notes_first[OF rn, of i] evs out
  show "\<exists>r data. out = Resolved r \<and> body r = Some data \<and>
           alerts_of i evs =
           (if i \<in> seenNotifications st then []
            else case find (\<lambda>x. id_of x = i) (flat data) of
                   None \<Rightarrow> []
                 | Some x \<Rightarrow> if ntype (snd x) = ''error''
                             then [Alerted i (note_text (fst x) (snd x))] else [])"
    by simp
qed

lemma polls_includes:
  assumes "list_items st = Some old" and "\<forall>out \<in> set outs. poll_includes symbol n out"
    and "note_id symbol n \<in> seenNotifications st"
  shows "length (fst (polls st outs)) = length outs \<and>
         (\<forall>st' \<in> set (fst (polls st outs)).
            (\<exists>items. list_items st' = Some items \<and>
              Entry (ntype n = ''error'') (note_text symbol n) \<in> set items) \<and>
            note_id symbol n \<in> seenNotifications st') \<and>
         alerts_of (note_id symbol n) (snd (polls st outs)) = []"
  using assms
proof (induction outs arbitrary: st old)
  case Nil
  then show ?case by simp
next
  case (Cons out outs)
  obtain st1 evs1 where u: "updateNotifications st out = (st1, evs1)"
    by (cases "updateNotifications st out") auto
  from Cons.prems have d: "poll_includes symbol n out" by simp
  note s = updateNotifications_includes(1,2)[OF Cons.prems(1) d u]
    updateNotifications_includes(3)[OF Cons.prems(1) d u, where i = "note_id symbol n"]
  from s(1) obtain items1 where i1: "list_items st1 = Some items1" by blast
  from Cons.prems have "\<forall>out \<in> set outs. poll_includes symbol n out" by simp
  note ih = Cons.IH[OF i1 this s(2)]
  obtain sts evs where p: "polls st1 outs = (sts, evs)" by (cases "polls st1 outs") auto
  from ih p s Cons.prems(3) show ?case using u by (auto simp: Let_def)
qed

text \<open>
  C7, as amended. The page has the notification list, the id of the notification (its
  symbol, "-", its timestamp) has not been seen, and one or more consecutive polls each
  include the notification. The alert goes by the first message of the first poll that
  has this id: when its type is "error", the polls raise exactly one alert for the id,
  with the text of that message, and otherwise they raise none. After each of the polls
  the list holds the notification's item and the id is in the seen set.
\<close>

theorem notification_alert_by_first_message:
  assumes "list_items st = Some old"
    and "symbol @ ''-'' @ timestamp n \<notin> seenNotifications st"
    and "\<forall>out \<in> set (out1 # outs). poll_includes symbol n out"
    and "out1 = Resolved r" and "body r = Some data"
    and "find (\<lambda>x. fst x @ ''-'' @ timestamp (snd x) = symbol @ ''-'' @ timestamp n) (flat data) =
           Some first"
  shows "alerts_of (symbol @ ''-'' @ timestamp n) (snd (polls st (out1 # outs))) =
           (if ntype (snd first) = ''error''
            then [Alerted (symbol @ ''-'' @ timestamp n) (fst first @ '': '' @ message (snd first))]
            else []) \<and>
         length (fst (polls st (out1 # outs))) = length (out1 # outs) \<and>
         (\<forall>st' \<in> set (fst (polls st (out1 # outs))).
            (\<exists>items. list_items st' = Some items \<and>
               Entry (ntype n = ''error'') (symbol @ '': '' @ message n) \<in> set items) \<and>
            symbol @ ''-'' @ timestamp n \<in> seenNotifications st')"
proof -
  have i: "symbol @ ''-'' @ timestamp n = note_id symbol n" by (simp add: note_id_def)
  have f: "(\<lambda>x. fst x @ ''-'' @ timestamp (snd x) = note_id symbol n) = (\<lambda>x. id_of x = note_id symbol n)"
    by (simp add: id_of_def note_id_def)
  obtain st1 evs1 where u: "updateNotifications st out1 = (st1, evs1)"
    by (cases "updateNotifications st out1") auto
  from assms(3) have d: "poll_includes symbol n out1" by simp
  note s = updateNotifications_includes(1,2)[OF assms(1) d u]
    updateNotifications_includes(3)[OF assms(1) d u, where i = "note_id symbol n"]
  from s(1) obtain items1 where i1: "list_items st1 = Some items1" by blast
  from assms(3) have "\<forall>out \<in> set outs. poll_includes symbol n out" by simp
  note rest = polls_includes[OF i1 this s(2)]
  obtain sts evs where p: "polls st1 outs = (sts, evs)" by (cases "polls st1 outs") auto
  from s(3) assms(2,4,5,6) have
    a1: "alerts_of (note_id symbol n) evs1 =
           (if ntype (snd first) = ''error''
            then [Alerted (note_id symbol n) (note_text (fst first) (snd first))] else [])"
    unfolding i f by auto
  from rest p a1 s(1,2) u show ?thesis
    unfolding i by (auto simp: Let_def note_text_def)
qed


text \<open>
  C7 as stated fails when two notifications share an id: BTCUSDC has an info notification
  and an error notification with the same timestamp. Three polls include the error; it is
  rendered after each of them and no alert is ever raised.
\<close>

theorem same_id_error_not_alerted:
  "poll_includes ''BTCUSDC'' failed_order filled_and_failed_poll \<and>
   ntype failed_order = ''error'' \<and>
   note_id ''BTCUSDC'' failed_order = ''BTCUSDC-2024-05-01 10:00:00'' \<and>
   list_items fresh_dropdown = Some [] \<and>
   seenNotifications fresh_dropdown = {} \<and>
   snd (polls fresh_dropdown
          [filled_and_failed_poll, filled_and_failed_poll, filled_and_failed_poll]) =
     [Requested ''/api/notifications'', Responded ''/api/notifications'',
      Requested ''/api/notifications'', Responded ''/api/notifications'',
      Requested ''/api/notifications'', Responded ''/api/notifications''] \<and>
   map list_items
     (fst (polls fresh_dropdown
             [filled_and_failed_poll, filled_and_failed_poll, filled_and_failed_poll])) =
     replicate 3 (Some [Entry False ''BTCUSDC: Order filled'', Entry True ''BTCUSDC: Order failed'',
                        Divider, ClearAll])"
  by (simp add: poll_includes_def filled_and_failed_poll_def ok_response_def flat_def
      failed_order_def order_filled_def note_id_def note_text_def fresh_dropdown_def
      updateNotifications_def show_notifications_def Let_def numeral_3_eq_3)

text \<open>
  Three consecutive polls that include the same error notification of BTCUSDC raise one
  alert.
\<close>

theorem notification_alert_by_first_message_witness:
  "list_items fresh_dropdown = Some [] \<and>
   ''BTCUSDC'' @ ''-'' @ timestamp failed_order \<notin> seenNotifications fresh_dropdown \<and>
   poll_includes ''BTCUSDC'' failed_order failed_order_poll \<and>
   failed_order_poll = Resolved (ok_response [(''BTCUSDC'', [failed_order])]) \<and>
   body (ok_response [(''BTCUSDC'', [failed_order])]) = Some [(''BTCUSDC'', [failed_order])] \<and>
   find (\<lambda>x. fst x @ ''-'' @ timestamp (snd x) = ''BTCUSDC'' @ ''-'' @ timestamp failed_order)
     (flat [(''BTCUSDC'', [failed_order])]) = Some (''BTCUSDC'', failed_order) \<and>
   alerts_of ''BTCUSDC-2024-05-01 10:00:00''
     (snd (polls fresh_dropdown [failed_order_poll, failed_order_poll, failed_order_poll])) =
     [Alerted ''BTCUSDC-2024-05-01 10:00:00'' ''BTCUSDC: Order failed''] \<and>
   length (fst (polls fresh_dropdown [failed_order_poll, failed_order_poll, failed_order_poll])) = 3"
proof -
  have a: "list_items fresh_dropdown = Some []" by (simp add: fresh_dropdown_def)
  have b: "''BTCUSDC'' @ ''-'' @ timestamp failed_order \<notin> seenNotifications fresh_dropdown"
    by (simp add: fresh_dropdown_def)
  have inc: "poll_includes ''BTCUSDC'' failed_order failed_order_poll"
    by (simp add: poll_includes_def failed_order_poll_def ok_response_def flat_def)
  then have c: "\<forall>out \<in> set (failed_order_poll # [failed_order_poll, failed_order_poll]).
             poll_includes ''BTCUSDC'' failed_order out"
    by simp
  have d: "failed_order_poll = Resolved (ok_response [(''BTCUSDC'', [failed_order])])"
    by (simp add: failed_order_poll_def)
  have e: "body (ok_response [(''BTCUSDC'', [failed_order])]) = Some [(''BTCUSDC'', [failed_order])]"
    by (simp add: ok_response_def)
  have f: "find (\<lambda>x. fst x @ ''-'' @ timestamp (snd x) = ''BTCUSDC'' @ ''-'' @ timestamp failed_order)
     (flat [(''BTCUSDC'', [failed_order])]) = Some (''BTCUSDC'', failed_order)"
    by (simp add: flat_def)
  from notification_alert_by_first_message[OF a b c d e f] a b inc d e f
  show ?thesis by (simp add: failed_order_def)
qed

lemma render_notes_alerts:
  "render_notes seen xs = (seen', items, alerts) \<Longrightarrow> SeenCleared \<notin> set alerts"
proof (induction xs arbitrary: seen seen' items alerts)
  case Nil
  then show ?case by simp
next
  case (Cons x xs)
  obtain s n where x: "x = (s, n)" by (cases x)
  obtain s1 i1 a1 where r: "render_notes (insert (note_id s n) seen) xs = (s1, i1, a1)"
    by (cases "render_notes (insert (note_id s n) seen) xs") auto
  from Cons.IH[OF r] Cons.prems x r show ?case by (auto simp: Let_def split: if_splits)
qed

lemma updateNotifications_no_clear: "SeenCleared \<notin> set (snd (updateNotifications st out))"
  by (auto simp: updateNotifications_def show_notifications_def Let_def
      split: fetch_outcome.splits option.splits prod.splits dest: render_notes_alerts)

text \<open>
  C8, as amended. The seen set after \<open>clearNotifications\<close> differs from the one before only
  when the clear request's fetch resolved and its body was parsed. When the fetch rejects
  or the body is not JSON, the state is the one before and the seen set is never cleared.
  When the seen set is cleared, the events before that are the clear request and its
  response, in this order. A response whose body is JSON clears the seen set and starts a
  poll, whatever its status: \<open>response.ok\<close> is not read.
\<close>

theorem clear_resets_after_response:
  "(seenNotifications (fst (clearNotifications st clear_out poll_out)) \<noteq> seenNotifications st \<longrightarrow>
      (\<exists>r ack. clear_out = Resolved r \<and> body r = Some ack)) \<and>
   ((\<exists>m. clear_out = Rejected m) \<or> (\<exists>r. clear_out = Resolved r \<and> body r = None) \<longrightarrow>
      fst (clearNotifications st clear_out poll_out) = st \<and>
      SeenCleared \<notin> set (snd (clearNotifications st clear_out poll_out))) \<and>
   (\<forall>pre post.
      snd (clearNotifications st clear_out poll_out) = pre @ SeenCleared # post \<longrightarrow>
      pre = [Requested ''/clear_notifications'', Responded ''/clear_notifications'']) \<and>
   (\<forall>r ack.
      clear_out = Resolved r \<and> body r = Some ack \<longrightarrow>
      clearNotifications st clear_out poll_out =
        (fst (updateNotifications (st\<lparr>seenNotifications := {}\<rparr>) poll_out),
         Requested ''/clear_notifications'' # Responded ''/clear_notifications'' # SeenCleared #
         snd (updateNotifications (st\<lparr>seenNotifications := {}\<rparr>) poll_out)))"
proof (intro conjI impI allI)
  assume "seenNotifications (fst (clearNotifications st clear_out poll_out)) \<noteq> seenNotifications st"
  then show "\<exists>r ack. clear_out = Resolved r \<and> body r = Some ack"
    by (auto simp: clearNotifications_def split: fetch_outcome.splits option.splits)
next
  assume "(\<exists>m. clear_out = Rejected m) \<or> (\<exists>r. clear_out = Resolved r \<and> body r = None)"
  then show "fst (clearNotifications st clear_out poll_out) = st"
    by (auto simp: clearNotifications_def)
next
  assume "(\<exists>m. clear_out = Rejected m) \<or> (\<exists>r. clear_out = Resolved r \<and> body r = None)"
  then show "SeenCleared \<notin> set (snd (clearNotifications st clear_out poll_out))"
    by (auto simp: clearNotifications_def)
next
  fix r ack
  assume "clear_out = Resolved r \<and> body r = Some ack"
  then show "clearNotifications st clear_out poll_out =
        (fst (updateNotifications (st\<lparr>seenNotifications := {}\<rparr>) poll_out),
         Requested ''/clear_notifications'' # Responded ''/clear_notifications'' # SeenCleared #
         snd (updateNotifications (st\<lparr>seenNotifications := {}\<rparr>) poll_out))"
    by (simp add: clearNotifications_def split: prod.splits)
next
  fix pre post
  assume a: "snd (clearNotifications st clear_out poll_out) = pre @ SeenCleared # post"
  show "pre = [Requested ''/clear_notifications'', Responded ''/clear_notifications'']"
  proof (cases clear_out)
    case (Rejected m)
    with a have "SeenCleared \<in> set [Requested ''/clear_notifications'',
      RequestFailed ''/clear_notifications'']"
      by (simp add: clearNotifications_def)
    then show ?thesis by simp
  next
    case (Resolved r)
    show ?thesis
    proof (cases "body r")
      case None
      with a Resolved have "SeenCleared \<in> set [Requested ''/clear_notifications'',
        Responded ''/clear_notifications'']"
        by (simp add: clearNotifications_def)
      then show ?thesis by simp
    next
      case (Some ack)
      obtain st' evs where u: "updateNotifications (st\<lparr>seenNotifications := {}\<rparr>) poll_out = (st', evs)"
        by (cases "updateNotifications (st\<lparr>seenNotifications := {}\<rparr>) poll_out") auto
      with updateNotifications_no_clear[of "st\<lparr>seenNotifications := {}\<rparr>" poll_out]
      have n: "SeenCleared \<notin> set evs" by simp
      from a Resolved Some u have
        e: "[Requested ''/clear_notifications'', Responded ''/clear_notifications''] @
              SeenCleared # evs = pre @ SeenCleared # post"
        by (simp add: clearNotifications_def)
      have "SeenCleared \<notin> set [Requested ''/clear_notifications'',
        Responded ''/clear_notifications'']" by simp
      with e n show ?thesis
        by (metis append_Cons_eq_iff)
    qed
  qed
qed

text \<open>
  C8 as stated fails when the server answers the clear request with a failure status and
  a JSON body: the seen set is cleared, and the poll that follows raises the alert of a
  notification that had been seen.
\<close>

theorem failed_clear_resets_seen:
  "seenNotifications seen_dropdown = {''BTCUSDC-2024-05-01 10:00:00''} \<and>
   clearNotifications seen_dropdown
     (Resolved \<lparr>ok = False, statusText = ''INTERNAL SERVER ERROR'', body = Some ()\<rparr>)
     (Rejected ''Failed to fetch'') =
     (seen_dropdown\<lparr>seenNotifications := {}\<rparr>,
      [Requested ''/clear_notifications'', Responded ''/clear_notifications'', SeenCleared,
       Requested ''/api/notifications'', RequestFailed ''/api/notifications'']) \<and>
   snd (clearNotifications seen_dropdown
          (Resolved \<lparr>ok = False, statusText = ''INTERNAL SERVER ERROR'', body = Some ()\<rparr>)
          failed_order_poll) =
     [Requested ''/clear_notifications'', Responded ''/clear_notifications'', SeenCleared,
      Requested ''/api/notifications'', Responded ''/api/notifications'',
      Alerted ''BTCUSDC-2024-05-01 10:00:00'' ''BTCUSDC: Order failed'']"
  by (simp add: clearNotifications_def updateNotifications_def show_notifications_def
      seen_dropdown_def failed_order_poll_def failed_order_def ok_response_def flat_def
      note_id_def note_text_def Let_def)

text \<open>
  A clear whose request fails, and one whose request succeeds, on a dropdown that has seen
  one notification.
\<close>

theorem clear_resets_after_response_witness:
  "fst (clearNotifications seen_dropdown (Rejected ''Failed to fetch'' :: unit fetch_outcome)
          failed_order_poll) = seen_dropdown \<and>
   seenNotifications seen_dropdown \<noteq> {} \<and>
   body (ok_response ()) = Some () \<and>
   clearNotifications seen_dropdown (Resolved (ok_response ())) (Resolved (ok_response [])) =
     (\<lparr>seenNotifications = {}, count_shown = Some 0, list_items = Some [Divider, ClearAll]\<rparr>,
      [Requested ''/clear_notifications'', Responded ''/clear_notifications'', SeenCleared,
       Requested ''/api/notifications'', Responded ''/api/notifications''])"
proof -
  have "fst (clearNotifications seen_dropdown (Rejected ''Failed to fetch'' :: unit fetch_outcome)
          failed_order_poll) = seen_dropdown"
    using clear_resets_after_response[of seen_dropdown
        "Rejected ''Failed to fetch'' :: unit fetch_outcome" failed_order_poll]
    by simp
  moreover have "seenNotifications seen_dropdown \<noteq> {}" by (simp add: seen_dropdown_def)
  moreover have b: "body (ok_response ()) = Some ()" by (simp add: ok_response_def)
  moreover have "clearNotifications seen_dropdown (Resolved (ok_response ()))
      (Resolved (ok_response [])) =
    (\<lparr>seenNotifications = {}, count_shown = Some 0, list_items = Some [Divider, ClearAll]\<rparr>,
     [Requested ''/clear_notifications'', Responded ''/clear_notifications'', SeenCleared,
      Requested ''/api/notifications'', Responded ''/api/notifications''])"
    using clear_resets_after_response[of seen_dropdown "Resolved (ok_response ())"
        "Resolved (ok_response [])", THEN conjunct2, THEN conjunct2, THEN conjunct2,
        rule_format, of "ok_response ()" "()"] b
    by (simp add: updateNotifications_def show_notifications_def
        ok_response_def seen_dropdown_def flat_def Let_def)
  ultimately show ?thesis by simp
qed

subsection \<open>The pagination controls of the profit ledger\<close>

lemma js_le_one_num [simp]: "js_le_one B (JNum (Fin t)) = (t \<le> 1)"
  by (simp add: js_le_one_def)

lemma pagination_rendered:
  "\<not> js_le_one B totalPages \<Longrightarrow>
   previous_disabled (updatePaginationControls B (Some old) totalPages currentPage) =
     Some (\<not> truthy currentPage \<or> strict_eq currentPage (JNum (Fin 1))) \<and>
   next_disabled (updatePaginationControls B (Some old) totalPages currentPage) =
     Some (\<not> truthy currentPage \<or> strict_eq currentPage totalPages) \<and>
   map_option (map item_text) (updatePaginationControls B (Some old) totalPages currentPage) =
     Some [''Previous'', inner_text B currentPage, ''Next'']"
  by (simp add: updatePaginationControls_def previous_disabled_def next_disabled_def)

lemma render_entries_some [simp]:
  "render_entries (map Some xs) = Inr (map EntryRow xs)"
  by (induction xs) simp_all

lemma loadProfitLogData_entries:
  assumes "body r = Some data" and "\<not> truthy (ledger_error data)"
    and "ledger_body view = Some rows"
    and "ledger_entries data = Array es" and "es \<noteq> []" and "render_entries es = Inr shown"
  shows "loadProfitLogData B view (Resolved r) =
           view\<lparr>ledger_body := Some shown,
                pagination := updatePaginationControls B (pagination view)
                                (total_pages data) (current_page data)\<rparr>"
  using assms by (simp add: loadProfitLogData_def show_ledger_page_def no_entries_def)

lemma loadProfitLogData_no_entries:
  assumes "body r = Some data" and "\<not> truthy (ledger_error data)"
    and "ledger_body view = Some rows" and "no_entries (ledger_entries data)"
  shows "loadProfitLogData B view (Resolved r) =
           view\<lparr>ledger_body := Some [NoEntriesRow],
                pagination := updatePaginationControls B (pagination view)
                                (js_or (total_pages data) (JNum (Fin 0)))
                                (js_or (current_page data) (JNum (Fin 1)))\<rparr>"
  using assms by (simp add: loadProfitLogData_def show_ledger_page_def)

lemma loadProfitLogData_thrown:
  assumes "body r = Some data" and "\<not> truthy (ledger_error data)"
    and "ledger_body view = Some rows"
    and "ledger_entries data = Array es" and "render_entries es = Inl err"
  shows "loadProfitLogData B view (Resolved r) = view\<lparr>ledger_body := Some [ErrorSeeConsole]\<rparr>"
proof -
  from assms(5) have "es \<noteq> []" by auto
  with assms show ?thesis
    by (simp add: loadProfitLogData_def show_ledger_page_def no_entries_def)
qed

lemma loadProfitLogData_changes_pagination:
  assumes "pagination (loadProfitLogData B view out) \<noteq> pagination view"
  shows "\<exists>r data rows. out = Resolved r \<and> body r = Some data \<and> \<not> truthy (ledger_error data) \<and>
           ledger_body view = Some rows \<and>
           (no_entries (ledger_entries data) \<or>
            (\<exists>es shown. ledger_entries data = Array es \<and> render_entries es = Inr shown))"
  using assms
  by (auto simp: loadProfitLogData_def show_ledger_page_def Let_def
      split: fetch_outcome.splits option.splits if_splits entries_value.splits sum.splits)

text \<open>
  C9, as amended. On a page that has the pagination list: when \<open>totalPages <= 1\<close> no
  control is rendered; otherwise the list is Previous, the current page and Next, with
  Previous disabled exactly when the current page is falsy or \<open>=== 1\<close>, and Next disabled
  exactly when the current page is falsy or \<open>=== totalPages\<close>. So for a number of pages
  above 1 and a current page that is a number other than zero, Previous is disabled exactly
  on page 1 and Next exactly on the last page. A response with no error, on a page with the
  ledger table, is rendered in one of two ways. With entries that can all be rendered, the
  rows are shown and the controls are made from its \<open>total_pages\<close> and \<open>current_page\<close>.
  Without entries the "no entries" row is shown and the controls are made from
  \<open>total_pages || 0\<close> and \<open>current_page || 1\<close>, so that a falsy current page counts as page
  1. When an entry is null, the error row is shown and the controls stay as they were;
  and the controls change for no other response than a rendered one.
\<close>

theorem pagination_controls:
  "(js_le_one B totalPages \<longrightarrow>
      updatePaginationControls B (Some old) totalPages currentPage = Some []) \<and>
   (\<not> js_le_one B totalPages \<longrightarrow>
      previous_disabled (updatePaginationControls B (Some old) totalPages currentPage) =
        Some (\<not> truthy currentPage \<or> strict_eq currentPage (JNum (Fin 1))) \<and>
      next_disabled (updatePaginationControls B (Some old) totalPages currentPage) =
        Some (\<not> truthy currentPage \<or> strict_eq currentPage totalPages) \<and>
      map_option (map item_text) (updatePaginationControls B (Some old) totalPages currentPage) =
        Some [''Previous'', inner_text B currentPage, ''Next'']) \<and>
   (\<forall>t c. 1 < t \<and> c \<noteq> 0 \<longrightarrow>
      previous_disabled
        (updatePaginationControls B (Some old) (JNum (Fin t)) (JNum (Fin c))) = Some (c = 1) \<and>
      next_disabled
        (updatePaginationControls B (Some old) (JNum (Fin t)) (JNum (Fin c))) = Some (c = t)) \<and>
   (\<forall>(view :: 'e ledger_view) (r :: 'e ledger_page response) data rows es shown.
      body r = Some data \<and> \<not> truthy (ledger_error data) \<and> ledger_body view = Some rows \<and>
      ledger_entries data = Array es \<and> es \<noteq> [] \<and> render_entries es = Inr shown \<longrightarrow>
      loadProfitLogData B view (Resolved r) =
        view\<lparr>ledger_body := Some shown,
             pagination := updatePaginationControls B (pagination view)
                             (total_pages data) (current_page data)\<rparr>) \<and>
   (\<forall>(view :: 'e ledger_view) (r :: 'e ledger_page response) data rows.
      body r = Some data \<and> \<not> truthy (ledger_error data) \<and> ledger_body view = Some rows \<and>
      no_entries (ledger_entries data) \<longrightarrow>
      loadProfitLogData B view (Resolved r) =
        view\<lparr>ledger_body := Some [NoEntriesRow],
             pagination := updatePaginationControls B (pagination view)
                             (js_or (total_pages data) (JNum (Fin 0)))
                             (js_or (current_page data) (JNum (Fin 1)))\<rparr>) \<and>
   (\<forall>(view :: 'e ledger_view) (r :: 'e ledger_page response) data rows es err.
      body r = Some data \<and> \<not> truthy (ledger_error data) \<and> ledger_body view = Some rows \<and>
      ledger_entries data = Array es \<and> render_entries es = Inl err \<longrightarrow>
      loadProfitLogData B view (Resolved r) = view\<lparr>ledger_body := Some [ErrorSeeConsole]\<rparr>) \<and>
   (\<forall>(view :: 'e ledger_view) out.
      pagination (loadProfitLogData B view out) \<noteq> pagination view \<longrightarrow>
      (\<exists>r data rows. out = Resolved r \<and> body r = Some data \<and> \<not> truthy (ledger_error data) \<and>
         ledger_body view = Some rows \<and>
         (no_entries (ledger_entries data) \<or>
          (\<exists>es shown. ledger_entries data = Array es \<and> render_entries es = Inr shown))))"
proof (intro conjI allI impI)
  assume "js_le_one B totalPages"
  then show "updatePaginationControls B (Some old) totalPages currentPage = Some []"
    by (simp add: updatePaginationControls_def)
next
  fix t c :: rat
  assume a: "1 < t \<and> c \<noteq> 0"
  then have "\<not> js_le_one B (JNum (Fin t))" by simp
  from pagination_rendered[OF this, of old "JNum (Fin c)"] a
  show "previous_disabled
        (updatePaginationControls B (Some old) (JNum (Fin t)) (JNum (Fin c))) = Some (c = 1)"
    and "next_disabled
        (updatePaginationControls B (Some old) (JNum (Fin t)) (JNum (Fin c))) = Some (c = t)"
    by simp_all
next
  fix view :: "'e ledger_view" and r :: "'e ledger_page response" and data rows es shown
  assume "body r = Some data \<and> \<not> truthy (ledger_error data) \<and> ledger_body view = Some rows \<and>
      ledger_entries data = Array es \<and> es \<noteq> [] \<and> render_entries es = Inr shown"
  then show "loadProfitLogData B view (Resolved r) =
        view\<lparr>ledger_body := Some shown,
             pagination := updatePaginationControls B (pagination view)
                             (total_pages data) (current_page data)\<rparr>"
    using loadProfitLogData_entries by blast
next
  fix view :: "'e ledger_view" and r :: "'e ledger_page response" and data rows
  assume "body r = Some data \<and> \<not> truthy (ledger_error data) \<and> ledger_body view = Some rows \<and>
      no_entries (ledger_entries data)"
  then show "loadProfitLogData B view (Resolved r) =
        view\<lparr>ledger_body := Some [NoEntriesRow],
             pagination := updatePaginationControls B (pagination view)
                             (js_or (total_pages data) (JNum (Fin 0)))
                             (js_or (current_page data) (JNum (Fin 1)))\<rparr>"
    using loadProfitLogData_no_entries by blast
next
  fix view :: "'e ledger_view" and r :: "'e ledger_page response" and data rows es err
  assume "body r = Some data \<and> \<not> truthy (ledger_error data) \<and> ledger_body view = Some rows \<and>
      ledger_entries data = Array es \<and> render_entries es = Inl err"
  then show "loadProfitLogData B view (Resolved r) = view\<lparr>ledger_body := Some [ErrorSeeConsole]\<rparr>"
    using loadProfitLogData_thrown by blast
next
  fix view :: "'e ledger_view" and out
  assume "pagination (loadProfitLogData B view out) \<noteq> pagination view"
  then show "\<exists>r data rows. out = Resolved r \<and> body r = Some data \<and> \<not> truthy (ledger_error data) \<and>
         ledger_body view = Some rows \<and>
         (no_entries (ledger_entries data) \<or>
          (\<exists>es shown. ledger_entries data = Array es \<and> render_entries es = Inr shown))"
    by (rule loadProfitLogData_changes_pagination)
qed (simp_all add: pagination_rendered)

lemma ledger_response_pagination:
  "0 < k \<Longrightarrow>
   pagination (loadProfitLogData B empty_view (Resolved (ok_response (ledger_response k tp cp)))) =
     updatePaginationControls B (Some []) tp cp"
  by (simp add: loadProfitLogData_def ok_response_def show_ledger_page_def ledger_response_def
      empty_view_def no_entries_def)

text \<open>
  C9 as stated fails: a response with 5 entries, \<open>total_pages = 1\<close> and \<open>current_page
  = 1\<close> renders no control at all, so there is no disabled Previous control; and a
  response with \<open>total_pages = 3\<close> and \<open>current_page = 0\<close> renders Previous and Next both
  disabled, on a page that is neither 1 nor the last.
\<close>

theorem single_page_has_no_controls:
  "\<forall>B. pagination (loadProfitLogData B empty_view
              (Resolved (ok_response (ledger_response 5 (JNum (Fin 1)) (JNum (Fin 1)))))) = Some [] \<and>
       previous_disabled (Some []) = None \<and>
       previous_disabled (pagination (loadProfitLogData B empty_view
              (Resolved (ok_response (ledger_response 5 (JNum (Fin 3)) (JNum (Fin 0))))))) =
         Some True \<and>
       next_disabled (pagination (loadProfitLogData B empty_view
              (Resolved (ok_response (ledger_response 5 (JNum (Fin 3)) (JNum (Fin 0))))))) =
         Some True"
  by (simp add: ledger_response_pagination updatePaginationControls_def previous_disabled_def
      next_disabled_def)

text \<open>
  The scenario of the specification: page 2 of 2 with 18 entries disables Next and
  leaves Previous enabled; page 1 of 1 renders nothing. A response without entries that
  reports 3 pages and the current page 0 disables Previous and leaves Next enabled. A
  response whose second entry is null shows the error row and leaves the controls as they
  were.
\<close>

theorem pagination_controls_witness:
  "\<forall>B. js_le_one B (JNum (Fin 1)) \<and> \<not> js_le_one B (JNum (Fin 2)) \<and>
       updatePaginationControls B (Some []) (JNum (Fin 1)) (JNum (Fin 1)) = Some [] \<and>
       ledger_body empty_view = Some [] \<and>
       \<not> truthy (ledger_error (ledger_response 18 (JNum (Fin 2)) (JNum (Fin 2)))) \<and>
       ledger_entries (ledger_response 18 (JNum (Fin 2)) (JNum (Fin 2))) =
         Array (map Some [0..<18]) \<and>
       render_entries (map Some [0..<18]) = Inr (map EntryRow [0..<18]) \<and>
       ledger_body (loadProfitLogData B empty_view
          (Resolved (ok_response (ledger_response 18 (JNum (Fin 2)) (JNum (Fin 2)))))) =
         Some (map EntryRow [0..<18]) \<and>
       previous_disabled (pagination (loadProfitLogData B empty_view
          (Resolved (ok_response (ledger_response 18 (JNum (Fin 2)) (JNum (Fin 2))))))) =
         Some False \<and>
       next_disabled (pagination (loadProfitLogData B empty_view
          (Resolved (ok_response (ledger_response 18 (JNum (Fin 2)) (JNum (Fin 2))))))) =
         Some True \<and>
       no_entries (ledger_entries (empty_response (JNum (Fin 3)) (JNum (Fin 0)))) \<and>
       ledger_body (loadProfitLogData B empty_view
          (Resolved (ok_response (empty_response (JNum (Fin 3)) (JNum (Fin 0)))))) =
         Some [NoEntriesRow] \<and>
       previous_disabled (pagination (loadProfitLogData B empty_view
          (Resolved (ok_response (empty_response (JNum (Fin 3)) (JNum (Fin 0))))))) =
         Some True \<and>
       next_disabled (pagination (loadProfitLogData B empty_view
          (Resolved (ok_response (empty_response (JNum (Fin 3)) (JNum (Fin 0))))))) =
         Some False \<and>
       render_entries [Some (0 :: nat), None] = Inl TypeError \<and>
       loadProfitLogData B empty_view (Resolved (ok_response null_entry_response)) =
         \<lparr>ledger_body = Some [ErrorSeeConsole], pagination = Some []\<rparr>"
  (is "\<forall>B. ?P B")
proof
  fix B
  note t = pagination_controls[where 'e = nat, of B _ "[]"]
  note entries = t[THEN conjunct2, THEN conjunct2, THEN conjunct2, THEN conjunct1, rule_format]
  note none = t[THEN conjunct2, THEN conjunct2, THEN conjunct2, THEN conjunct2, THEN conjunct1,
      rule_format]
  note thrown = t[THEN conjunct2, THEN conjunct2, THEN conjunct2, THEN conjunct2, THEN conjunct2,
      THEN conjunct1, rule_format]
  have a: "ledger_body empty_view = Some []"
    "\<not> truthy (ledger_error (ledger_response 18 (JNum (Fin 2)) (JNum (Fin 2))))"
    "ledger_entries (ledger_response 18 (JNum (Fin 2)) (JNum (Fin 2))) = Array (map Some [0..<18])"
    "render_entries (map Some [0..<18]) = Inr (map EntryRow [0..<18])"
    "body (ok_response (ledger_response 18 (JNum (Fin 2)) (JNum (Fin 2)))) =
       Some (ledger_response 18 (JNum (Fin 2)) (JNum (Fin 2)))"
    by (simp_all add: empty_view_def ledger_response_def ok_response_def)
  have ne: "map Some [0..<18] \<noteq> []" by simp
  from entries[of "ok_response (ledger_response 18 (JNum (Fin 2)) (JNum (Fin 2)))"
      "ledger_response 18 (JNum (Fin 2)) (JNum (Fin 2))" empty_view "[]" "map Some [0..<18]"
      "map EntryRow [0..<18]"] a ne
  have b: "loadProfitLogData B empty_view
          (Resolved (ok_response (ledger_response 18 (JNum (Fin 2)) (JNum (Fin 2))))) =
        empty_view\<lparr>ledger_body := Some (map EntryRow [0..<18]),
             pagination := updatePaginationControls B (Some []) (JNum (Fin 2)) (JNum (Fin 2))\<rparr>"
    by (simp add: empty_view_def ledger_response_def)
  from t[of "JNum (Fin 2)" "JNum (Fin 2)", THEN conjunct2, THEN conjunct2, THEN conjunct1,
      rule_format, of 2 2]
  have c: "previous_disabled (updatePaginationControls B (Some []) (JNum (Fin 2)) (JNum (Fin 2))) =
      Some False"
    "next_disabled (updatePaginationControls B (Some []) (JNum (Fin 2)) (JNum (Fin 2))) =
      Some True" by simp_all
  from t[of "JNum (Fin 1)" "JNum (Fin 1)", THEN conjunct1]
  have d: "updatePaginationControls B (Some []) (JNum (Fin 1)) (JNum (Fin 1)) = Some []"
    by simp
  have e: "no_entries (ledger_entries (empty_response (JNum (Fin 3)) (JNum (Fin 0))))"
    "\<not> truthy (ledger_error (empty_response (JNum (Fin 3)) (JNum (Fin 0))))"
    "body (ok_response (empty_response (JNum (Fin 3)) (JNum (Fin 0)))) =
       Some (empty_response (JNum (Fin 3)) (JNum (Fin 0)))"
    by (simp_all add: empty_response_def no_entries_def ok_response_def)
  from none[of "ok_response (empty_response (JNum (Fin 3)) (JNum (Fin 0)))"
      "empty_response (JNum (Fin 3)) (JNum (Fin 0))" empty_view "[]"] e a(1)
  have f: "loadProfitLogData B empty_view
          (Resolved (ok_response (empty_response (JNum (Fin 3)) (JNum (Fin 0))))) =
        empty_view\<lparr>ledger_body := Some [NoEntriesRow],
             pagination := updatePaginationControls B (Some []) (JNum (Fin 3)) (JNum (Fin 1))\<rparr>"
    by (simp add: empty_view_def empty_response_def js_or_def)
  from t[of "JNum (Fin 3)" "JNum (Fin 1)", THEN conjunct2, THEN conjunct2, THEN conjunct1,
      rule_format, of 3 1]
  have g: "previous_disabled (updatePaginationControls B (Some []) (JNum (Fin 3)) (JNum (Fin 1))) =
      Some True"
    "next_disabled (updatePaginationControls B (Some []) (JNum (Fin 3)) (JNum (Fin 1))) =
      Some False" by simp_all
  have h: "render_entries [Some (0 :: nat), None] = Inl TypeError"
    "\<not> truthy (ledger_error null_entry_response)"
    "ledger_entries null_entry_response = Array [Some 0, None]"
    "body (ok_response null_entry_response) = Some null_entry_response"
    by (simp_all add: null_entry_response_def ok_response_def)
  from thrown[of "ok_response null_entry_response" null_entry_response empty_view "[]"
      "[Some 0, None]" TypeError] h a(1)
  have i: "loadProfitLogData B empty_view (Resolved (ok_response null_entry_response)) =
         \<lparr>ledger_body = Some [ErrorSeeConsole], pagination = Some []\<rparr>"
    by (simp add: empty_view_def)
  from a b c d e f g h i show "?P B" by simp
qed

subsection \<open>The pair profits and the account totals\<close>







lemma profit_body_key [simp]: "replace_first ''profit-body-'' '''' (''profit-body-'' @ key) = key"
  by simp



lemma zeroed_other:
  "\<forall>r\<in>set rs. row_pair r \<noteq> i \<Longrightarrow> map (zeroed_usdc i) rs = rs \<and> map (zeroed_crypto i) rs = rs"
  by (induction rs) (auto simp: zeroed_usdc_def zeroed_crypto_def)

lemma zeroed_row:
  "zeroed_usdc (row_pair r) r =
     (case usdc_cell r of None \<Rightarrow> r | Some t \<Rightarrow> r\<lparr>usdc_cell := Some ''0.0''\<rparr>)"
  "zeroed_crypto (row_pair r) r =
     (case crypto_cell r of None \<Rightarrow> r | Some t \<Rightarrow> r\<lparr>crypto_cell := Some ''0.0''\<rparr>)"
  by (simp_all add: zeroed_usdc_def zeroed_crypto_def split: option.splits)

lemma zeroed_pair_other:
  "row_pair r \<noteq> i \<Longrightarrow> zeroed_usdc i r = r \<and> zeroed_crypto i r = r"
  by (simp add: zeroed_usdc_def zeroed_crypto_def)

lemma zero_rows_distinct:
  "distinct (map row_pair rs) \<Longrightarrow>
   zero_usdc i rs = map (zeroed_usdc i) rs \<and> zero_crypto i rs = map (zeroed_crypto i) rs"
proof (induction rs)
  case Nil
  then show ?case by simp
next
  case (Cons r rs)
  from Cons have ih: "zero_usdc i rs = map (zeroed_usdc i) rs"
    "zero_crypto i rs = map (zeroed_crypto i) rs" by simp_all
  show ?case
  proof (cases "row_pair r = i")
    case True
    from Cons.prems have "row_pair r \<notin> row_pair ` set rs" by simp
    with True have "\<forall>x\<in>set rs. row_pair x \<noteq> i" by (metis imageI)
    from zeroed_other[OF this] have m: "map (zeroed_usdc i) rs = rs"
      "map (zeroed_crypto i) rs = rs" by simp_all
    have "zero_usdc i (r # rs) = zeroed_usdc i r # rs"
      using ih(1) m(1) zeroed_row(1)[of r] True by (cases "usdc_cell r") auto
    moreover have "zero_crypto i (r # rs) = zeroed_crypto i r # rs"
      using ih(2) m(2) zeroed_row(2)[of r] True by (cases "crypto_cell r") auto
    ultimately show ?thesis using m by simp
  next
    case False
    with ih zeroed_pair_other[OF False] show ?thesis by simp
  qed
qed

lemma on_first_body_distinct:
  "distinct (map row_pair (all_rows bs)) \<Longrightarrow>
   on_first_body (list_ex (\<lambda>r. row_pair r = i \<and> usdc_cell r \<noteq> None)) (zero_usdc i) bs =
     map (\<lambda>b. b\<lparr>tbody_rows := map (zeroed_usdc i) (tbody_rows b)\<rparr>) bs \<and>
   on_first_body (list_ex (\<lambda>r. row_pair r = i \<and> crypto_cell r \<noteq> None)) (zero_crypto i) bs =
     map (\<lambda>b. b\<lparr>tbody_rows := map (zeroed_crypto i) (tbody_rows b)\<rparr>) bs"
proof (induction bs)
  case Nil
  show ?case by simp
next
  case (Cons b bs)
  have d: "distinct (map row_pair (tbody_rows b))" "distinct (map row_pair (all_rows bs))"
    using Cons.prems by (simp_all add: all_rows_def)
  note z = zero_rows_distinct[OF d(1), of i]
  note ih = Cons.IH[OF d(2)]
  have rest: "map (\<lambda>b. b\<lparr>tbody_rows := map (zeroed_usdc i) (tbody_rows b)\<rparr>) bs = bs \<and>
              map (\<lambda>b. b\<lparr>tbody_rows := map (zeroed_crypto i) (tbody_rows b)\<rparr>) bs = bs"
    if "list_ex (\<lambda>r. row_pair r = i) (tbody_rows b)"
  proof -
    from that obtain r where r: "r \<in> set (tbody_rows b)" "row_pair r = i"
      by (auto simp: list_ex_iff)
    have "\<forall>x\<in>set (tbody_rows b'). row_pair x \<noteq> i" if "b' \<in> set bs" for b'
    proof
      fix x assume x: "x \<in> set (tbody_rows b')"
      with that have "x \<in> set (all_rows bs)" by (auto simp: all_rows_def)
      with Cons.prems r show "row_pair x \<noteq> i" by (auto simp: all_rows_def)
    qed
    then have "\<forall>b'\<in>set bs. map (zeroed_usdc i) (tbody_rows b') = tbody_rows b' \<and>
                 map (zeroed_crypto i) (tbody_rows b') = tbody_rows b'"
      using zeroed_other by blast
    then show ?thesis by (simp add: map_idI)
  qed
  have none: "map (zeroed_usdc i) (tbody_rows b) = tbody_rows b"
    if "\<not> list_ex (\<lambda>r. row_pair r = i \<and> usdc_cell r \<noteq> None) (tbody_rows b)"
    using that by (auto simp: list_ex_iff zeroed_usdc_def intro!: map_idI)
  have nonec: "map (zeroed_crypto i) (tbody_rows b) = tbody_rows b"
    if "\<not> list_ex (\<lambda>r. row_pair r = i \<and> crypto_cell r \<noteq> None) (tbody_rows b)"
    using that by (auto simp: list_ex_iff zeroed_crypto_def intro!: map_idI)
  have u: "on_first_body (list_ex (\<lambda>r. row_pair r = i \<and> usdc_cell r \<noteq> None)) (zero_usdc i)
             (b # bs) =
           map (\<lambda>b. b\<lparr>tbody_rows := map (zeroed_usdc i) (tbody_rows b)\<rparr>) (b # bs)"
  proof (cases "list_ex (\<lambda>r. row_pair r = i \<and> usdc_cell r \<noteq> None) (tbody_rows b)")
    case True
    then have "list_ex (\<lambda>r. row_pair r = i) (tbody_rows b)" by (auto simp: list_ex_iff)
    from rest[OF this] True z show ?thesis by simp
  next
    case False
    with none ih show ?thesis by simp
  qed
  have c: "on_first_body (list_ex (\<lambda>r. row_pair r = i \<and> crypto_cell r \<noteq> None)) (zero_crypto i)
             (b # bs) =
           map (\<lambda>b. b\<lparr>tbody_rows := map (zeroed_crypto i) (tbody_rows b)\<rparr>) (b # bs)"
  proof (cases "list_ex (\<lambda>r. row_pair r = i \<and> crypto_cell r \<noteq> None) (tbody_rows b)")
    case True
    then have "list_ex (\<lambda>r. row_pair r = i) (tbody_rows b)" by (auto simp: list_ex_iff)
    from rest[OF this] True z show ?thesis by simp
  next
    case False
    with nonec ih show ?thesis by simp
  qed
  from u c show ?case by simp
qed

lemma zero_rows_frame:
  "map row_pair (zero_usdc i rs) = map row_pair rs \<and>
   map row_pair (zero_crypto i rs) = map row_pair rs \<and>
   filter (\<lambda>r. row_pair r \<noteq> i) (zero_usdc i rs) = filter (\<lambda>r. row_pair r \<noteq> i) rs \<and>
   filter (\<lambda>r. row_pair r \<noteq> i) (zero_crypto i rs) = filter (\<lambda>r. row_pair r \<noteq> i) rs"
  by (induction rs) auto

lemma on_first_body_frame:
  assumes "\<And>rs. map row_pair (f rs) = map row_pair rs"
    and "\<And>rs. filter (\<lambda>r. row_pair r \<noteq> i) (f rs) = filter (\<lambda>r. row_pair r \<noteq> i) rs"
  shows "map tbody_id (on_first_body hit f bs) = map tbody_id bs \<and>
         map (\<lambda>b. map row_pair (tbody_rows b)) (on_first_body hit f bs) =
           map (\<lambda>b. map row_pair (tbody_rows b)) bs \<and>
         map (\<lambda>b. filter (\<lambda>r. row_pair r \<noteq> i) (tbody_rows b)) (on_first_body hit f bs) =
           map (\<lambda>b. filter (\<lambda>r. row_pair r \<noteq> i) (tbody_rows b)) bs"
  by (induction bs) (auto simp: assms)

lemma zeroed_both: "zeroed_crypto i (zeroed_usdc i r) = zeroed i r"
  by (simp add: zeroed_def zeroed_usdc_def zeroed_crypto_def)

lemma pairs_zeroed_usdc:
  "map row_pair (all_rows (map (\<lambda>b. b\<lparr>tbody_rows := map (zeroed_usdc i) (tbody_rows b)\<rparr>) bs)) =
   map row_pair (all_rows bs)"
  by (induction bs) (auto simp: all_rows_def zeroed_usdc_def)

lemma zero_cells_distinct:
  assumes "distinct (map row_pair (all_rows (bodies panel)))"
  shows "bodies (zero_cells panel i) =
           map (\<lambda>b. b\<lparr>tbody_rows := map (zeroed i) (tbody_rows b)\<rparr>) (bodies panel)"
proof -
  let ?u = "map (\<lambda>b. b\<lparr>tbody_rows := map (zeroed_usdc i) (tbody_rows b)\<rparr>) (bodies panel)"
  from on_first_body_distinct[OF assms, of i]
  have a: "on_first_body (list_ex (\<lambda>r. row_pair r = i \<and> usdc_cell r \<noteq> None)) (zero_usdc i)
             (bodies panel) = ?u" by simp
  from assms have "distinct (map row_pair (all_rows ?u))" by (simp add: pairs_zeroed_usdc)
  from on_first_body_distinct[OF this, of i]
  have b: "on_first_body (list_ex (\<lambda>r. row_pair r = i \<and> crypto_cell r \<noteq> None)) (zero_crypto i) ?u =
             map (\<lambda>b. b\<lparr>tbody_rows := map (zeroed_crypto i) (tbody_rows b)\<rparr>) ?u" by simp
  have "bodies (zero_cells panel i) =
          map (\<lambda>b. b\<lparr>tbody_rows := map (zeroed_crypto i) (tbody_rows b)\<rparr>) ?u"
    unfolding zero_cells_def a b by simp
  then show ?thesis
    by (simp add: o_def zeroed_both)
qed

lemma zero_cells_frame:
  "map tbody_id (bodies (zero_cells panel i)) = map tbody_id (bodies panel) \<and>
   map (\<lambda>b. map row_pair (tbody_rows b)) (bodies (zero_cells panel i)) =
     map (\<lambda>b. map row_pair (tbody_rows b)) (bodies panel) \<and>
   map (\<lambda>b. filter (\<lambda>r. row_pair r \<noteq> i) (tbody_rows b)) (bodies (zero_cells panel i)) =
     map (\<lambda>b. filter (\<lambda>r. row_pair r \<noteq> i) (tbody_rows b)) (bodies panel)"
  using on_first_body_frame[of "zero_usdc i" i] on_first_body_frame[of "zero_crypto i" i]
  by (simp add: zero_cells_def zero_rows_frame)

text \<open>
  C10. A reset-profit operation that the server answers with "success" leaves every
  heading, with the account totals, as it was; the table bodies keep their ids, their
  rows and the pair ids of the rows; every row of another pair is unchanged; and, the pair
  ids being distinct, the only change is that the USDC and the crypto cell of the pair's
  own row read "0.0". The totals are not summed again, so a heading that showed the sum of
  the rows before shows it still.
\<close>

theorem reset_profit_frame:
  "resetProfit panel pairId True
     (Resolved \<lparr>ok = k, statusText = s, body = Some (JStr ''success'')\<rparr>) =
     (zero_cells panel pairId, []) \<and>
   headings (zero_cells panel pairId) = headings panel \<and>
   map tbody_id (bodies (zero_cells panel pairId)) = map tbody_id (bodies panel) \<and>
   map (\<lambda>b. map row_pair (tbody_rows b)) (bodies (zero_cells panel pairId)) =
     map (\<lambda>b. map row_pair (tbody_rows b)) (bodies panel) \<and>
   map (\<lambda>b. filter (\<lambda>r. row_pair r \<noteq> pairId) (tbody_rows b)) (bodies (zero_cells panel pairId)) =
     map (\<lambda>b. filter (\<lambda>r. row_pair r \<noteq> pairId) (tbody_rows b)) (bodies panel) \<and>
   (distinct (map row_pair (all_rows (bodies panel))) \<longrightarrow>
      bodies (zero_cells panel pairId) =
        map (\<lambda>b. b\<lparr>tbody_rows := map (zeroed pairId) (tbody_rows b)\<rparr>) (bodies panel))"
  using zero_cells_frame[of panel pairId] zero_cells_distinct[of panel pairId]
  by (simp add: resetProfit_def) (simp add: zero_cells_def)

text \<open>
  Pair 3 is reset in an account with the pairs 3 and 5 and the USDC total 3.7500: the
  row of pair 3 reads 0.0, the row of pair 5 reads 2.2500, the heading still 3.7500.
\<close>

theorem reset_profit_frame_witness:
  "distinct (map row_pair (all_rows (bodies two_pair_panel))) \<and>
   resetProfit two_pair_panel ''3'' True (Resolved (ok_response (JStr ''success''))) =
     (zero_cells two_pair_panel ''3'', []) \<and>
   bodies (zero_cells two_pair_panel ''3'') =
     [\<lparr>tbody_id = ''profit-body-binance_real'',
       tbody_rows =
         [\<lparr>row_pair = ''3'', usdc_cell = Some ''0.0'', crypto_cell = Some ''0.0''\<rparr>,
          \<lparr>row_pair = ''5'', usdc_cell = Some ''2.2500'', crypto_cell = Some ''0.000200''\<rparr>]\<rparr>] \<and>
   headings (zero_cells two_pair_panel ''3'') ''heading-binance_real'' =
     Some \<lparr>pnl_usdc = Some ''3.7500'', pnl_crypto = Some ''0.000300''\<rparr>"
proof -
  have a: "distinct (map row_pair (all_rows (bodies two_pair_panel)))"
    by (simp add: two_pair_panel_def all_rows_def)
  note t = reset_profit_frame[of two_pair_panel "''3''" True "''OK''"]
  from t a have "bodies (zero_cells two_pair_panel ''3'') =
        map (\<lambda>b. b\<lparr>tbody_rows := map (zeroed ''3'') (tbody_rows b)\<rparr>) (bodies two_pair_panel)"
    by blast
  then have b: "bodies (zero_cells two_pair_panel ''3'') =
     [\<lparr>tbody_id = ''profit-body-binance_real'',
       tbody_rows =
         [\<lparr>row_pair = ''3'', usdc_cell = Some ''0.0'', crypto_cell = Some ''0.0''\<rparr>,
          \<lparr>row_pair = ''5'', usdc_cell = Some ''2.2500'', crypto_cell = Some ''0.000200''\<rparr>]\<rparr>]"
    by (simp add: two_pair_panel_def zeroed_def)
  from t have c: "headings (zero_cells two_pair_panel ''3'') = headings two_pair_panel" by blast
  from t have d: "resetProfit two_pair_panel ''3'' True (Resolved (ok_response (JStr ''success''))) =
     (zero_cells two_pair_panel ''3'', [])" by (simp add: ok_response_def)
  from a b c d show ?thesis by (simp add: two_pair_panel_def)
qed

end
